theory Spec2Isabelle
  imports Complex_Main "HOL-Library.Sublist" "HOL-Library.Char_ord" "HOL-Library.List_Lexorder"
    "HOL-Library.Multiset"
begin

section \<open>JavaScript values the sources compute with\<close>

text \<open>
  A JavaScript string is modelled by \<^typ>\<open>string\<close>: one \<^typ>\<open>char\<close> per code unit
  (code units below 256). A value that may be \<open>undefined\<close> is an \<^typ>\<open>'a option\<close>.
\<close>

text \<open>What a \<open>catch\<close> clause receives: an \<open>Error\<close> instance with its message, or any
  other thrown value.\<close>

datatype thrown = JsError string | JsOther

text \<open>\<open>error instanceof Error ? error.message : 'Unknown error'\<close>\<close>

fun errorMessage :: "thrown \<Rightarrow> string" where
  "errorMessage (JsError m) = m"
| "errorMessage JsOther = ''Unknown error''"

text \<open>Truthiness of a possibly undefined string: \<open>undefined\<close> and \<open>''\<close> are falsy.\<close>

fun truthy :: "string option \<Rightarrow> bool" where
  "truthy None = False"
| "truthy (Some s) = (s \<noteq> [])"

text \<open>\<open>a || ''\<close> on a possibly undefined string.\<close>

fun or_empty :: "string option \<Rightarrow> string" where
  "or_empty None = []"
| "or_empty (Some s) = s"

text \<open>\<open>String.prototype.includes\<close>: the needle occurs as a contiguous run of code units.\<close>

fun str_includes :: "string \<Rightarrow> string \<Rightarrow> bool" where
  "str_includes [] needle = (needle = [])"
| "str_includes (c # cs) needle = (prefix needle (c # cs) \<or> str_includes cs needle)"

text \<open>\<open>String.prototype.trim\<close>: white space and line terminators among the code units
  below 256 are TAB, LF, VT, FF, CR, SPACE and NBSP.\<close>

definition is_space :: "char \<Rightarrow> bool" where
  "is_space c = (of_char c \<in> {9, 10, 11, 12, 13, 32, 160 :: nat})"

definition trim :: "string \<Rightarrow> string" where
  "trim s = rev (dropWhile is_space (rev (dropWhile is_space s)))"

section \<open>The sandbox backend and what a handler does to it\<close>

record logs =
  stdout :: "string option"
  stderr :: "string option"

text \<open>A \<open>Date\<close> is carried by the text \<open>toISOString\<close> renders for it; an invalid date
  makes \<open>toISOString\<close> throw a \<open>RangeError\<close>.\<close>

datatype js_date = Date string | InvalidDate

fun toISOString :: "js_date \<Rightarrow> thrown + string" where
  "toISOString (Date s) = Inr s"
| "toISOString InvalidDate = Inl (JsError ''Invalid time value'')"

text \<open>
  A process handle. The backend owns \<open>status\<close> and \<open>exitCode\<close>; a handler sees them change
  only across its suspension points, so both are functions of the number of suspension
  points (timed waits, awaited calls) passed since the handle was obtained. \<open>getLogs\<close> is
  the outcome of the handle's \<open>getLogs()\<close> call: a rejection or a log snapshot.
\<close>

record process =
  proc_id :: string
  command :: string
  status :: "nat \<Rightarrow> string"
  startTime :: "js_date option"
  endTime :: "js_date option"
  exitCode :: "nat \<Rightarrow> int option"
  getLogs :: "thrown + logs"

text \<open>What a handler does that is visible outside it, in order.\<close>

datatype console_arg = Str string | Bool bool | Thrown thrown | Undefined

datatype event =
    StartProcess string
  | GetLogs string
  | ListProcesses
  | Sleep nat
  | ConsoleLog "console_arg list"

text \<open>
  The sandbox. Its answers may depend on everything that happened before the call (the
  history of events), so a backend whose state changes between two calls is a sandbox too.
\<close>

record sandbox =
  startProcess :: "event list \<Rightarrow> string \<Rightarrow> thrown + process"
  listProcesses :: "event list \<Rightarrow> thrown + process list"

record MoltbotEnv =
  R2_ACCESS_KEY_ID :: "string option"
  R2_SECRET_ACCESS_KEY :: "string option"
  CF_ACCOUNT_ID :: "string option"

fun is_remote :: "event \<Rightarrow> bool" where
  "is_remote (StartProcess _) = True"
| "is_remote (GetLogs _) = True"
| "is_remote ListProcesses = True"
| "is_remote (Sleep _) = False"
| "is_remote (ConsoleLog _) = False"

fun is_sleep :: "event \<Rightarrow> bool" where
  "is_sleep (Sleep _) = True"
| "is_sleep _ = False"

section \<open>\<open>gateway/r2.ts\<close>\<close>

text \<open>The command of both mount checks; \<open>R2_MOUNT_PATH\<close> comes from \<open>../config\<close> and is a
  parameter here.\<close>

definition mount_command :: "string \<Rightarrow> string" where
  \<open>mount_command R2_MOUNT_PATH = ''mount | grep "tigrisfs on '' @ R2_MOUNT_PATH @ ''"''\<close>

text \<open>The loop of \<open>isR2Mounted\<close>:
  \<^verbatim>\<open>while (proc.status === 'running' && attempts < 10) { await sleep(200); attempts++ }\<close>.
  It returns the attempts made and the history.\<close>

function isR2Mounted_wait :: "process \<Rightarrow> nat \<Rightarrow> event list \<Rightarrow> nat \<times> event list" where
  "isR2Mounted_wait proc attempts tr =
     (if status proc attempts = ''running'' \<and> attempts < 10
      then isR2Mounted_wait proc (attempts + 1) (tr @ [Sleep 200])
      else (attempts, tr))"
  by pat_completeness auto
termination
  by (relation "measure (\<lambda>(proc, attempts, tr). 10 - attempts)") auto

declare isR2Mounted_wait.simps [simp del]

definition isR2Mounted :: "string \<Rightarrow> sandbox \<Rightarrow> event list \<Rightarrow> bool \<times> event list" where
  "isR2Mounted R2_MOUNT_PATH sb tr =
     (let cmd = mount_command R2_MOUNT_PATH; tr0 = tr @ [StartProcess cmd] in
      case startProcess sb tr cmd of
        Inl err \<Rightarrow> (False, tr0 @ [ConsoleLog [Str ''isR2Mounted error:'', Thrown err]])
      | Inr proc \<Rightarrow>
          (let (attempts, tr1) = isR2Mounted_wait proc 0 tr0;
               tr2 = tr1 @ [GetLogs (proc_id proc)] in
           case getLogs proc of
             Inl err \<Rightarrow> (False, tr2 @ [ConsoleLog [Str ''isR2Mounted error:'', Thrown err]])
           | Inr lg \<Rightarrow>
               (let mounted = (truthy (stdout lg) \<and> str_includes (or_empty (stdout lg)) ''tigrisfs'')
                in (mounted,
                    tr2 @ [ConsoleLog [Str ''isR2Mounted check:'', Bool mounted, Str ''stdout:'',
                       (case stdout lg of None \<Rightarrow> Undefined | Some s \<Rightarrow> Str (take 100 s))]]))))"

definition not_configured :: "MoltbotEnv \<Rightarrow> bool" where
  "not_configured env =
     (\<not> truthy (R2_ACCESS_KEY_ID env) \<or> \<not> truthy (R2_SECRET_ACCESS_KEY env)
      \<or> \<not> truthy (CF_ACCOUNT_ID env))"

definition mountR2Storage ::
  "string \<Rightarrow> sandbox \<Rightarrow> MoltbotEnv \<Rightarrow> event list \<Rightarrow> bool \<times> event list" where
  "mountR2Storage R2_MOUNT_PATH sb env tr =
     (if not_configured env
      then (False, tr @ [ConsoleLog [Str
        ''R2 storage not configured (missing R2_ACCESS_KEY_ID, R2_SECRET_ACCESS_KEY, or CF_ACCOUNT_ID)'']])
      else
        (let (mounted, tr1) = isR2Mounted R2_MOUNT_PATH sb tr in
         if mounted
         then (True, tr1 @ [ConsoleLog [Str ''R2 FUSE mount active at'', Str R2_MOUNT_PATH]])
         else (False, tr1 @ [ConsoleLog [Str
           ''R2 FUSE mount not yet active - container may be starting'']])))"

section \<open>\<open>syncToR2\<close>\<close>

record SyncResult =
  success :: bool
  lastSync :: "string option"
  error :: "string option"
  details :: "string option"

text \<open>
  \<open>waitForProcess\<close> is imported from \<open>./utils\<close> and is a parameter here: given the handle and
  the timeout it yields the events it performs and the value it throws, if any.
\<close>

type_synonym waiter = "process \<Rightarrow> nat \<Rightarrow> event list \<times> thrown option"

text \<open>The result built in the \<open>catch\<close> clause of \<open>syncToR2\<close>.\<close>

definition check_failed :: "thrown \<Rightarrow> SyncResult" where
  "check_failed err =
     \<lparr>success = False, lastSync = None, error = Some ''Failed to check mount status'',
      details = Some (errorMessage err)\<rparr>"

definition syncToR2 ::
  "waiter \<Rightarrow> string \<Rightarrow> sandbox \<Rightarrow> MoltbotEnv \<Rightarrow> event list \<Rightarrow> SyncResult \<times> event list" where
  "syncToR2 waitForProcess R2_MOUNT_PATH sb env tr =
     (if not_configured env
      then (\<lparr>success = False, lastSync = None, error = Some ''R2 storage is not configured'',
             details = None\<rparr>, tr)
      else
        (let cmd = mount_command R2_MOUNT_PATH; tr0 = tr @ [StartProcess cmd] in
         case startProcess sb tr cmd of
           Inl err \<Rightarrow> (check_failed err, tr0)
         | Inr proc \<Rightarrow>
             (let (evs, thr) = waitForProcess proc 5000; tr1 = tr0 @ evs in
              case thr of
                Some err \<Rightarrow> (check_failed err, tr1)
              | None \<Rightarrow>
                  (let tr2 = tr1 @ [GetLogs (proc_id proc)] in
                   case getLogs proc of
                     Inl err \<Rightarrow> (check_failed err, tr2)
                   | Inr lg \<Rightarrow>
                       if truthy (stdout lg) \<and> str_includes (or_empty (stdout lg)) ''tigrisfs''
                       then (\<lparr>success = True, lastSync = Some ''live (FUSE mount active)'',
                              error = None,
                              details = Some ''Data is written directly to R2 via FUSE mount''\<rparr>, tr2)
                       else (\<lparr>success = False, lastSync = None,
                              error = Some ''R2 FUSE mount not active'',
                              details = Some ''The container may need to be restarted to mount R2''\<rparr>,
                             tr2)))))"

section \<open>\<open>routes/debug.ts\<close>\<close>

subsection \<open>\<open>GET /debug/version\<close>\<close>

datatype version_response =
    VersionOk (clawdbot_version: string) (node_version: string)
  | VersionError string

text \<open>The 500 response built in the \<open>catch\<close> clause of the route.\<close>

definition version_failed :: "thrown \<Rightarrow> version_response" where
  "version_failed err = VersionError (''Failed to get version info: '' @ errorMessage err)"

definition debug_version :: "sandbox \<Rightarrow> event list \<Rightarrow> version_response \<times> event list" where
  "debug_version sb tr =
     (let tr0 = tr @ [StartProcess ''clawdbot --version''] in
      case startProcess sb tr ''clawdbot --version'' of
        Inl err \<Rightarrow> (version_failed err, tr0)
      | Inr versionProcess \<Rightarrow>
          (let tr1 = tr0 @ [Sleep 500, GetLogs (proc_id versionProcess)] in
           case getLogs versionProcess of
             Inl err \<Rightarrow> (version_failed err, tr1)
           | Inr versionLogs \<Rightarrow>
               (let clawdbotVersion =
                      trim (if truthy (stdout versionLogs) then or_empty (stdout versionLogs)
                            else or_empty (stderr versionLogs));
                    tr2 = tr1 @ [StartProcess ''node --version''] in
                case startProcess sb tr1 ''node --version'' of
                  Inl err \<Rightarrow> (version_failed err, tr2)
                | Inr nodeProcess \<Rightarrow>
                    (let tr3 = tr2 @ [Sleep 500, GetLogs (proc_id nodeProcess)] in
                     case getLogs nodeProcess of
                       Inl err \<Rightarrow> (version_failed err, tr3)
                     | Inr nodeLogs \<Rightarrow>
                         (let nodeVersion = trim (or_empty (stdout nodeLogs))
                          in (VersionOk clawdbotVersion nodeVersion, tr3))))))"

subsection \<open>\<open>GET /debug/processes\<close>\<close>

text \<open>The \<open>data\<close> object built for one process; a field that was never assigned is \<open>None\<close>.\<close>

record proc_data =
  data_id :: string
  data_command :: string
  data_status :: string
  data_startTime :: "string option"
  data_endTime :: "string option"
  data_exitCode :: "int option"
  data_stdout :: "string option"
  data_stderr :: "string option"
  data_logs_error :: "string option"

text \<open>\<open>d?.toISOString()\<close>\<close>

fun opt_toISOString :: "js_date option \<Rightarrow> thrown + string option" where
  "opt_toISOString None = Inr None"
| "opt_toISOString (Some d) = (case toISOString d of Inl e \<Rightarrow> Inl e | Inr s \<Rightarrow> Inr (Some s))"

text \<open>The body of the \<open>async p => ...\<close> callback: how its promise settles, and the remote
  calls it issues.\<close>

definition process_data :: "bool \<Rightarrow> process \<Rightarrow> (thrown + proc_data) \<times> event list" where
  "process_data includeLogs p =
     (case opt_toISOString (startTime p) of
        Inl e \<Rightarrow> (Inl e, [])
      | Inr st \<Rightarrow>
          (case opt_toISOString (endTime p) of
             Inl e \<Rightarrow> (Inl e, [])
           | Inr et \<Rightarrow>
               (let data = \<lparr>data_id = proc_id p, data_command = command p,
                            data_status = status p 0, data_startTime = st, data_endTime = et,
                            data_exitCode = exitCode p 0, data_stdout = None, data_stderr = None,
                            data_logs_error = None\<rparr>
                in if includeLogs
                   then (case getLogs p of
                           Inr lg \<Rightarrow>
                             (Inr (data\<lparr>data_stdout := Some (or_empty (stdout lg)),
                                        data_stderr := Some (or_empty (stderr lg))\<rparr>),
                              [GetLogs (proc_id p)])
                         | Inl _ \<Rightarrow>
                             (Inr (data\<lparr>data_logs_error := Some ''Failed to retrieve logs''\<rparr>),
                              [GetLogs (proc_id p)]))
                   else (Inr data, []))))"

text \<open>\<open>Promise.all\<close>: all values in order, or the first rejection.\<close>

fun promise_all :: "(thrown + 'a) list \<Rightarrow> thrown + 'a list" where
  "promise_all [] = Inr []"
| "promise_all (Inl e # rs) = Inl e"
| "promise_all (Inr v # rs) = (case promise_all rs of Inl e \<Rightarrow> Inl e | Inr vs \<Rightarrow> Inr (v # vs))"

text \<open>
  The lookup \<open>statusOrder[s]\<close> on the object literal
  \<^verbatim>\<open>{ running: 0, starting: 1, completed: 2, failed: 3 }\<close>. It finds the four own
  properties, and for every other key it walks the prototype chain: the names of the
  members of \<open>Object.prototype\<close> yield that member (a function, or for \<open>__proto__\<close> the
  prototype object), any other key yields \<open>undefined\<close>.
\<close>

definition object_prototype_members :: "string list" where
  "object_prototype_members =
     [''constructor'', ''__defineGetter__'', ''__defineSetter__'', ''hasOwnProperty'',
      ''__lookupGetter__'', ''__lookupSetter__'', ''isPrototypeOf'', ''propertyIsEnumerable'',
      ''toString'', ''valueOf'', ''__proto__'', ''toLocaleString'']"

text \<open>What the lookup can yield besides \<open>undefined\<close>: a number, or the inherited member
  of the given name (distinct names are distinct objects).\<close>

datatype status_value = Rank int | Member string

definition statusOrder :: "string \<Rightarrow> status_value option" where
  "statusOrder s =
     (if s = ''running'' then Some (Rank 0)
      else if s = ''starting'' then Some (Rank 1)
      else if s = ''completed'' then Some (Rank 2)
      else if s = ''failed'' then Some (Rank 3)
      else if s \<in> set object_prototype_members then Some (Member s)
      else None)"

text \<open>\<open>statusOrder[s] ?? 99\<close>: only \<open>undefined\<close> is replaced.\<close>

definition status_or_99 :: "string \<Rightarrow> status_value" where
  "status_or_99 s = (case statusOrder s of Some v \<Rightarrow> v | None \<Rightarrow> Rank 99)"

text \<open>A number the comparator returns: an integer here, or \<open>NaN\<close>. \<open>statusA - statusB\<close> is
  the difference of two numbers, and \<open>NaN\<close> as soon as one operand is an inherited member.\<close>

datatype js_number = Finite int | NaN

fun minus_status :: "status_value \<Rightarrow> status_value \<Rightarrow> js_number" where
  "minus_status (Rank a) (Rank b) = Finite (a - b)"
| "minus_status (Rank a) (Member n) = NaN"
| "minus_status (Member m) v = NaN"

text \<open>\<open>String.prototype.localeCompare\<close> is the runtime's locale collation and is a
  parameter of the route: \<open>localeCompare a b\<close> is \<open>a.localeCompare(b)\<close>, negative, zero or
  positive.\<close>

type_synonym collation = "string \<Rightarrow> string \<Rightarrow> int"

text \<open>The comparator passed to \<open>processData.sort\<close>.\<close>

definition compare_data :: "collation \<Rightarrow> proc_data \<Rightarrow> proc_data \<Rightarrow> js_number" where
  "compare_data localeCompare a b =
     (let statusA = status_or_99 (data_status a); statusB = status_or_99 (data_status b) in
      if statusA \<noteq> statusB then minus_status statusA statusB
      else (let timeA = or_empty (data_startTime a); timeB = or_empty (data_startTime b)
            in Finite (localeCompare timeB timeA)))"

text \<open>
  \<open>Array.prototype.sort\<close> with a comparator. The sort reads a comparator result through
  \<open>SortCompare\<close>, which takes \<open>NaN\<close> for \<open>+0\<close>. It is a stable sort: where the comparator is
  consistent on the elements of the array, the result is the one stable sorted
  arrangement, which stable insertion computes (an element goes in front of the first
  element it does not have to follow).
\<close>

fun sort_compare :: "js_number \<Rightarrow> int" where
  "sort_compare NaN = 0"
| "sort_compare (Finite v) = v"

fun insert_sorted :: "('a \<Rightarrow> 'a \<Rightarrow> int) \<Rightarrow> 'a \<Rightarrow> 'a list \<Rightarrow> 'a list" where
  "insert_sorted cmp x [] = [x]"
| "insert_sorted cmp x (y # ys) =
     (if cmp x y \<le> 0 then x # y # ys else y # insert_sorted cmp x ys)"

fun stable_sort :: "('a \<Rightarrow> 'a \<Rightarrow> int) \<Rightarrow> 'a list \<Rightarrow> 'a list" where
  "stable_sort cmp [] = []"
| "stable_sort cmp (x # xs) = insert_sorted cmp x (stable_sort cmp xs)"

definition array_sort :: "('a \<Rightarrow> 'a \<Rightarrow> js_number) \<Rightarrow> 'a list \<Rightarrow> 'a list" where
  "array_sort comparefn xs = stable_sort (\<lambda>x y. sort_compare (comparefn x y)) xs"

datatype processes_response =
    ProcessesOk (count: nat) (processes: "proc_data list")
  | ProcessesError string

definition debug_processes ::
  "collation \<Rightarrow> sandbox \<Rightarrow> string option \<Rightarrow> event list \<Rightarrow> processes_response \<times> event list" where
  "debug_processes localeCompare sb logs_query tr =
     (let tr0 = tr @ [ListProcesses] in
      case listProcesses sb tr of
        Inl err \<Rightarrow> (ProcessesError (errorMessage err), tr0)
      | Inr procs \<Rightarrow>
          (let includeLogs = (logs_query = Some ''true'');
               settled = map (process_data includeLogs) procs;
               tr1 = tr0 @ concat (map snd settled) in
           case promise_all (map fst settled) of
             Inl err \<Rightarrow> (ProcessesError (errorMessage err), tr1)
           | Inr processData \<Rightarrow>
               (ProcessesOk (length procs) (array_sort (compare_data localeCompare) processData),
                tr1)))"


subsection \<open>\<open>GET /debug/cli\<close> and \<open>GET /debug/container-config\<close>\<close>

text \<open>
  Both routes poll with the same loop, \<open>/debug/cli\<close> with 30 rounds of 500 ms and
  \<open>/debug/container-config\<close> with 10 rounds of 200 ms:
  \<^verbatim>\<open>while (attempts < limit) { await sleep(interval); if (proc.status !== 'running') break; attempts++ }\<close>.
  The loop returns \<open>attempts\<close>, the number of timed waits it made, and the history.
\<close>

function wait_then_check ::
  "nat \<Rightarrow> nat \<Rightarrow> process \<Rightarrow> nat \<Rightarrow> nat \<Rightarrow> event list \<Rightarrow> nat \<times> nat \<times> event list" where
  "wait_then_check limit interval proc attempts waits tr =
     (if attempts < limit
      then (if status proc (waits + 1) \<noteq> ''running''
            then (attempts, waits + 1, tr @ [Sleep interval])
            else wait_then_check limit interval proc (attempts + 1) (waits + 1) (tr @ [Sleep interval]))
      else (attempts, waits, tr))"
  by pat_completeness auto
termination
  by (relation "measure (\<lambda>(limit, interval, proc, attempts, waits, tr). limit - attempts)") auto

declare wait_then_check.simps [simp del]

record cli_result =
  cli_command :: string
  cli_status :: string
  cli_exitCode :: "int option"
  cli_attempts :: nat
  cli_stdout :: string
  cli_stderr :: string

datatype cli_response = CliOk cli_result | CliError string string

definition debug_cli :: "sandbox \<Rightarrow> string option \<Rightarrow> event list \<Rightarrow> cli_response \<times> event list" where
  "debug_cli sb cmd_query tr =
     (let cmd = (if truthy cmd_query then or_empty cmd_query else ''clawdbot --help'');
          tr0 = tr @ [StartProcess cmd] in
      case startProcess sb tr cmd of
        Inl err \<Rightarrow> (CliError (errorMessage err) cmd, tr0)
      | Inr proc \<Rightarrow>
          (let (attempts, waits, tr1) = wait_then_check 30 500 proc 0 0 tr0;
               tr2 = tr1 @ [GetLogs (proc_id proc)] in
           case getLogs proc of
             Inl err \<Rightarrow> (CliError (errorMessage err) cmd, tr2)
           | Inr lg \<Rightarrow>
               (CliOk \<lparr>cli_command = cmd, cli_status = status proc (waits + 1),
                       cli_exitCode = exitCode proc (waits + 1), cli_attempts = attempts,
                       cli_stdout = or_empty (stdout lg), cli_stderr = or_empty (stderr lg)\<rparr>,
                tr2)))"

text \<open>A parsed JSON text. \<open>JSON.parse\<close> belongs to the runtime and is a parameter of the
  route: \<open>None\<close> is its \<open>SyntaxError\<close>.\<close>

datatype json =
    JNull
  | JBool bool
  | JNumber rat
  | JString string
  | JArray "json list"
  | JObject "(string \<times> json) list"

type_synonym json_parser = "string \<Rightarrow> json option"

text \<open>Truthiness of a parsed value, as \<open>config ? undefined : stdout\<close> tests it.\<close>

fun json_truthy :: "json \<Rightarrow> bool" where
  "json_truthy JNull = False"
| "json_truthy (JBool b) = b"
| "json_truthy (JNumber n) = (n \<noteq> 0)"
| "json_truthy (JString s) = (s \<noteq> [])"
| "json_truthy (JArray _) = True"
| "json_truthy (JObject _) = True"

record config_result =
  cfg_status :: string
  cfg_exitCode :: "int option"
  cfg_config :: json
  cfg_raw :: "string option"
  cfg_stderr :: string

datatype config_response = ConfigOk config_result | ConfigError string

definition debug_container_config ::
  "json_parser \<Rightarrow> sandbox \<Rightarrow> event list \<Rightarrow> config_response \<times> event list" where
  "debug_container_config JSON_parse sb tr =
     (let cmd = ''cat /root/.clawdbot/clawdbot.json''; tr0 = tr @ [StartProcess cmd] in
      case startProcess sb tr cmd of
        Inl err \<Rightarrow> (ConfigError (errorMessage err), tr0)
      | Inr proc \<Rightarrow>
          (let (attempts, waits, tr1) = wait_then_check 10 200 proc 0 0 tr0;
               tr2 = tr1 @ [GetLogs (proc_id proc)] in
           case getLogs proc of
             Inl err \<Rightarrow> (ConfigError (errorMessage err), tr2)
           | Inr lg \<Rightarrow>
               (let out = or_empty (stdout lg);
                    err = or_empty (stderr lg);
                    config = (case JSON_parse out of Some v \<Rightarrow> v | None \<Rightarrow> JNull)
                in (ConfigOk \<lparr>cfg_status = status proc (waits + 1),
                              cfg_exitCode = exitCode proc (waits + 1), cfg_config = config,
                              cfg_raw = (if json_truthy config then None else Some out),
                              cfg_stderr = err\<rparr>,
                    tr2))))"

section \<open>Fixtures\<close>

text \<open>Concrete backends for the examples, in the manner of the mocks the repository's tests
  build (\<open>createMockProcess\<close>, \<open>mockResolvedValue\<close>, \<open>mockRejectedValue\<close>,
  \<open>createMockEnvWithR2\<close>): a finished process with the given stdout, a sandbox that
  answers every \<open>startProcess\<close> with one handle or with one rejection, and an environment
  with the three credentials.\<close>

definition createMockProcess :: "string \<Rightarrow> process" where
  "createMockProcess out =
     \<lparr>proc_id = ''mock-process'', command = [], status = (\<lambda>_. ''completed''),
      startTime = None, endTime = None, exitCode = (\<lambda>_. Some 0),
      getLogs = Inr \<lparr>stdout = Some out, stderr = Some []\<rparr>\<rparr>"

definition mockResolvedValue :: "process \<Rightarrow> sandbox" where
  "mockResolvedValue p = \<lparr>startProcess = (\<lambda>_ _. Inr p), listProcesses = (\<lambda>_. Inr [])\<rparr>"

definition mockRejectedValue :: "thrown \<Rightarrow> sandbox" where
  "mockRejectedValue e = \<lparr>startProcess = (\<lambda>_ _. Inl e), listProcesses = (\<lambda>_. Inr [])\<rparr>"

definition createMockEnvWithR2 :: MoltbotEnv where
  "createMockEnvWithR2 =
     \<lparr>R2_ACCESS_KEY_ID = Some ''test-key-id'', R2_SECRET_ACCESS_KEY = Some ''test-secret-key'',
      CF_ACCOUNT_ID = Some ''test-account-id''\<rparr>"

text \<open>A \<open>waitForProcess\<close> that finds the process finished and returns at once.\<close>

definition no_wait :: waiter where
  "no_wait p t = ([], None)"

text \<open>A finished mock process with both streams given.\<close>

definition mockProcessLogs :: "string \<Rightarrow> string \<Rightarrow> process" where
  "mockProcessLogs out err =
     \<lparr>proc_id = ''mock-process'', command = [], status = (\<lambda>_. ''completed''),
      startTime = None, endTime = None, exitCode = (\<lambda>_. Some 0),
      getLogs = Inr \<lparr>stdout = Some out, stderr = Some err\<rparr>\<rparr>"

text \<open>A handle with a fixed status, and a sandbox whose \<open>listProcesses\<close> returns the given
  handles.\<close>

definition mockProcessWith :: "string \<Rightarrow> string \<Rightarrow> js_date option \<Rightarrow> thrown + logs \<Rightarrow> process" where
  "mockProcessWith i st t lg =
     \<lparr>proc_id = i, command = ''sh'', status = (\<lambda>_. st), startTime = t, endTime = None,
      exitCode = (\<lambda>_. None), getLogs = lg\<rparr>"

definition mockListing :: "process list \<Rightarrow> sandbox" where
  "mockListing ps = \<lparr>startProcess = (\<lambda>_ _. Inl JsOther), listProcesses = (\<lambda>_. Inr ps)\<rparr>"

text \<open>A process table: seven handles, two of them with the same status and start time, one
  without a start time, one with a status outside the four ranked ones, and one whose
  \<open>getLogs\<close> rejects.\<close>

definition sample_processes :: "process list" where
  "sample_processes =
     [mockProcessWith ''p1'' ''completed'' (Some (Date ''2024-01-01T00:00:00.000Z''))
        (Inr \<lparr>stdout = Some ''done'', stderr = None\<rparr>),
      mockProcessWith ''p2'' ''running'' (Some (Date ''2024-01-02T00:00:00.000Z''))
        (Inl (JsError ''stream closed'')),
      mockProcessWith ''p3'' ''running'' None (Inr \<lparr>stdout = Some ''up'', stderr = Some ''warn''\<rparr>),
      mockProcessWith ''p4'' ''killed'' (Some (Date ''2024-01-05T00:00:00.000Z''))
        (Inr \<lparr>stdout = None, stderr = None\<rparr>),
      mockProcessWith ''p5'' ''running'' (Some (Date ''2024-01-03T00:00:00.000Z''))
        (Inr \<lparr>stdout = Some ''up'', stderr = None\<rparr>),
      mockProcessWith ''p6'' ''failed'' (Some (Date ''2024-01-04T00:00:00.000Z''))
        (Inr \<lparr>stdout = None, stderr = Some ''boom''\<rparr>),
      mockProcessWith ''p7'' ''running'' (Some (Date ''2024-01-02T00:00:00.000Z''))
        (Inr \<lparr>stdout = Some ''twin'', stderr = None\<rparr>)]"

text \<open>A collation for the examples: the order of the code units, which is the order of
  \<open>localeCompare\<close> on \<open>toISOString\<close> texts of the years 0000 to 9999.\<close>

definition codeunit_collation :: collation where
  "codeunit_collation a b = (if a < b then - 1 else if a = b then 0 else 1)"

text \<open>A stand-in for \<open>JSON.parse\<close> that accepts two texts.\<close>

definition parse_two_texts :: json_parser where
  "parse_two_texts s =
     (if s = ''{}'' then Some (JObject [])
      else if s = ''null'' then Some JNull
      else None)"

text \<open>A sandbox that answers the first \<open>startProcess\<close> of a history with one handle and every
  later one with another, in the manner of \<open>mockResolvedValueOnce\<close>: its answer depends on
  what happened before.\<close>

fun is_start :: "event \<Rightarrow> bool" where
  "is_start (StartProcess _) = True"
| "is_start _ = False"

definition mockResolvedValueOnce :: "process \<Rightarrow> process \<Rightarrow> sandbox" where
  "mockResolvedValueOnce p1 p2 =
     \<lparr>startProcess = (\<lambda>tr _. if filter is_start tr = [] then Inr p1 else Inr p2),
      listProcesses = (\<lambda>_. Inr [])\<rparr>"

text \<open>Two backends for a second mount check: one issues a fresh handle id at every start
  and reports the mount both times; the other reports the mount at the first start and an
  empty mount table afterwards.\<close>

definition mounted_logs :: "thrown + logs" where
  "mounted_logs = Inr \<lparr>stdout = Some ''tigrisfs on /data/moltbot type fuse.tigrisfs\<newline>'', stderr = Some []\<rparr>"

definition fresh_ids_sandbox :: sandbox where
  "fresh_ids_sandbox =
     mockResolvedValueOnce (mockProcessWith ''proc-1'' ''completed'' None mounted_logs)
                           (mockProcessWith ''proc-2'' ''completed'' None mounted_logs)"

definition unmounted_later_sandbox :: sandbox where
  "unmounted_later_sandbox =
     mockResolvedValueOnce (mockProcessWith ''proc-1'' ''completed'' None mounted_logs)
       (mockProcessWith ''proc-2'' ''completed'' None (Inr \<lparr>stdout = Some [], stderr = Some []\<rparr>))"

section \<open>One run of a mount check, by the backend's answer\<close>

text \<open>What one run of \<open>isR2Mounted\<close> and of \<open>syncToR2\<close> returns and appends to the history
  when \<open>startProcess\<close> answers \<open>resp\<close>.\<close>

definition mounted_run :: "string \<Rightarrow> thrown + process \<Rightarrow> bool \<times> event list" where
  "mounted_run mp resp =
     isR2Mounted mp \<lparr>startProcess = (\<lambda>_ _. resp), listProcesses = (\<lambda>_. Inr [])\<rparr> []"

definition sync_run ::
  "waiter \<Rightarrow> string \<Rightarrow> MoltbotEnv \<Rightarrow> thrown + process \<Rightarrow> SyncResult \<times> event list" where
  "sync_run w mp env resp =
     syncToR2 w mp \<lparr>startProcess = (\<lambda>_ _. resp), listProcesses = (\<lambda>_. Inr [])\<rparr> env []"

text \<open>Two answers of \<open>startProcess\<close> that are the same response: the same rejection, or two
  handles whose \<open>getLogs\<close> responses and statuses are the same (their ids may differ).\<close>

definition same_answer :: "thrown + process \<Rightarrow> thrown + process \<Rightarrow> bool" where
  "same_answer r r' =
     (case r of
        Inl e \<Rightarrow> (case r' of Inl e' \<Rightarrow> e' = e | Inr p' \<Rightarrow> False)
      | Inr p \<Rightarrow> (case r' of Inl e' \<Rightarrow> False
                             | Inr p' \<Rightarrow> getLogs p' = getLogs p \<and> status p' = status p))"

section \<open>Strings\<close>

lemma str_includes_iff: "str_includes s n \<longleftrightarrow> (\<exists>pre post. s = pre @ n @ post)"
proof (induction s)
  case Nil
  then show ?case by auto
next
  case (Cons c cs)
  have "(\<exists>pre post. c # cs = pre @ n @ post) \<longleftrightarrow> sublist n (c # cs)"
    by (simp add: sublist_def)
  also have "\<dots> \<longleftrightarrow> prefix n (c # cs) \<or> sublist n cs"
    by (rule sublist_Cons_right)
  also have "\<dots> \<longleftrightarrow> prefix n (c # cs) \<or> str_includes cs n"
    using Cons.IH by (simp add: sublist_def)
  finally show ?case by simp
qed

lemma truthy_and_includes:
  "(truthy so \<and> str_includes (or_empty so) ''tigrisfs'') = str_includes (or_empty so) ''tigrisfs''"
  by (cases so) auto

lemma trim_decomposes:
  "\<exists>l r. s = l @ trim s @ r \<and> (\<forall>c\<in>set l. is_space c) \<and> (\<forall>c\<in>set r. is_space c)"
proof -
  let ?l = "takeWhile is_space s"
  let ?m = "dropWhile is_space s"
  let ?r = "rev (takeWhile is_space (rev ?m))"
  have "rev ?m = takeWhile is_space (rev ?m) @ dropWhile is_space (rev ?m)"
    by simp
  then have "?m = trim s @ ?r"
    unfolding trim_def by (metis rev_append rev_rev_ident)
  then have "s = ?l @ trim s @ ?r"
    by (metis takeWhile_dropWhile_id)
  moreover have "\<forall>c\<in>set ?l. is_space c"
    by (auto dest: set_takeWhileD)
  moreover have "\<forall>c\<in>set ?r. is_space c"
    by (auto dest: set_takeWhileD)
  ultimately show ?thesis by blast
qed

lemma trim_ends:
  assumes "trim s \<noteq> []"
  shows "\<not> is_space (hd (trim s)) \<and> \<not> is_space (last (trim s))"
proof -
  let ?m = "dropWhile is_space s"
  let ?k = "dropWhile is_space (rev ?m)"
  have k: "?k \<noteq> []" using assms by (simp add: trim_def)
  then have "\<not> is_space (hd ?k)" by (rule hd_dropWhile)
  then have l: "\<not> is_space (last (trim s))"
    using k by (simp add: trim_def last_rev)
  have m: "?m \<noteq> []"
  proof
    assume e: "?m = []"
    have "?k = []" unfolding e by simp
    with k show False by (rule notE)
  qed
  then have hm: "\<not> is_space (hd ?m)" by (rule hd_dropWhile)
  have "rev ?m = takeWhile is_space (rev ?m) @ ?k" by simp
  then have "?m = trim s @ rev (takeWhile is_space (rev ?m))"
    unfolding trim_def by (metis rev_append rev_rev_ident)
  then have "hd ?m = hd (trim s)"
    using assms by (metis hd_append2)
  then show ?thesis using hm l by simp
qed

section \<open>The mount checks\<close>

text \<open>The loop of \<open>isR2Mounted\<close> only appends to the history, and what it appends does not
  depend on the history.\<close>

lemma isR2Mounted_wait_append:
  "isR2Mounted_wait proc a (tr @ xs) =
     (fst (isR2Mounted_wait proc a xs), tr @ snd (isR2Mounted_wait proc a xs))"
proof (induction proc a xs rule: isR2Mounted_wait.induct)
  case (1 proc attempts xs)
  show ?case
  proof (cases "status proc attempts = ''running'' \<and> attempts < 10")
    case True
    have "isR2Mounted_wait proc attempts (tr @ xs)
          = isR2Mounted_wait proc (attempts + 1) (tr @ (xs @ [Sleep 200]))"
      using True by (subst isR2Mounted_wait.simps) simp
    also have "\<dots> = (fst (isR2Mounted_wait proc (attempts + 1) (xs @ [Sleep 200])),
                     tr @ snd (isR2Mounted_wait proc (attempts + 1) (xs @ [Sleep 200])))"
      by (rule 1[OF True])
    also have "isR2Mounted_wait proc (attempts + 1) (xs @ [Sleep 200])
               = isR2Mounted_wait proc attempts xs"
      using True by (subst (2) isR2Mounted_wait.simps) simp
    finally show ?thesis .
  next
    case False
    then have "isR2Mounted_wait proc attempts (tr @ xs) = (attempts, tr @ xs)"
      and "isR2Mounted_wait proc attempts xs = (attempts, xs)"
      by (subst isR2Mounted_wait.simps, auto)+
    then show ?thesis by simp
  qed
qed

lemma isR2Mounted_wait_terminal:
  "status proc 0 \<noteq> ''running'' \<Longrightarrow> isR2Mounted_wait proc 0 tr = (0, tr)"
  by (subst isR2Mounted_wait.simps) simp

lemma isR2Mounted_run:
  "isR2Mounted mp sb tr =
     (fst (mounted_run mp (startProcess sb tr (mount_command mp))),
      tr @ snd (mounted_run mp (startProcess sb tr (mount_command mp))))"
proof (cases "startProcess sb tr (mount_command mp)")
  case (Inl err)
  then show ?thesis by (simp add: isR2Mounted_def mounted_run_def)
next
  case (Inr proc)
  have w: "isR2Mounted_wait proc 0 (tr @ [StartProcess (mount_command mp)])
        = (fst (isR2Mounted_wait proc 0 [StartProcess (mount_command mp)]),
           tr @ snd (isR2Mounted_wait proc 0 [StartProcess (mount_command mp)]))"
    by (rule isR2Mounted_wait_append)
  show ?thesis
    using Inr w
    by (cases "getLogs proc")
       (simp_all add: isR2Mounted_def mounted_run_def Let_def split_beta)
qed

lemma syncToR2_run:
  "syncToR2 w mp sb env tr =
     (fst (sync_run w mp env (startProcess sb tr (mount_command mp))),
      tr @ snd (sync_run w mp env (startProcess sb tr (mount_command mp))))"
proof (cases "not_configured env")
  case True
  then show ?thesis by (simp add: syncToR2_def sync_run_def)
next
  case False
  show ?thesis
  proof (cases "startProcess sb tr (mount_command mp)")
    case (Inl err)
    then show ?thesis using False by (simp add: syncToR2_def sync_run_def)
  next
    case (Inr proc)
    then show ?thesis
      using False
      by (cases "getLogs proc"; cases "snd (w proc 5000)")
         (simp_all add: syncToR2_def sync_run_def Let_def split_beta)
  qed
qed

lemma absent_not_configured:
  "R2_ACCESS_KEY_ID env = None \<or> R2_SECRET_ACCESS_KEY env = None \<or> CF_ACCOUNT_ID env = None
   \<Longrightarrow> not_configured env"
  by (auto simp: not_configured_def)

lemma isR2Mounted_resolved:
  assumes "startProcess sb tr (mount_command mp) = Inr proc" and "getLogs proc = Inr lg"
  shows "fst (isR2Mounted mp sb tr) = str_includes (or_empty (stdout lg)) ''tigrisfs''"
proof -
  obtain a tr1 where w: "isR2Mounted_wait proc 0 (tr @ [StartProcess (mount_command mp)]) = (a, tr1)"
    by fastforce
  show ?thesis
    using assms w by (simp add: isR2Mounted_def Let_def truthy_and_includes)
qed

lemma syncToR2_resolved:
  assumes "\<not> not_configured env"
    and "startProcess sb tr (mount_command mp) = Inr proc"
    and "snd (w proc 5000) = None"
    and "getLogs proc = Inr lg"
  shows "success (fst (syncToR2 w mp sb env tr)) = str_includes (or_empty (stdout lg)) ''tigrisfs''"
proof -
  obtain evs where w: "w proc 5000 = (evs, None)"
    using assms(3) by (cases "w proc 5000") auto
  show ?thesis
    using assms w by (simp add: syncToR2_def Let_def truthy_and_includes)
qed

lemma isR2Mounted_wait_status:
  "status p' = status p \<Longrightarrow> isR2Mounted_wait p' a tr = isR2Mounted_wait p a tr"
proof (induction p a tr rule: isR2Mounted_wait.induct)
  case (1 proc attempts tr)
  show ?case
  proof (cases "status proc attempts = ''running'' \<and> attempts < 10")
    case True
    then have "isR2Mounted_wait p' attempts tr = isR2Mounted_wait p' (attempts + 1) (tr @ [Sleep 200])"
      using 1(2) by (subst isR2Mounted_wait.simps) simp
    also have "\<dots> = isR2Mounted_wait proc (attempts + 1) (tr @ [Sleep 200])"
      by (rule 1(1)[OF True 1(2)])
    also have "\<dots> = isR2Mounted_wait proc attempts tr"
      using True by (subst (2) isR2Mounted_wait.simps) simp
    finally show ?thesis .
  next
    case False
    then have "isR2Mounted_wait p' attempts tr = (attempts, tr)"
      and "isR2Mounted_wait proc attempts tr = (attempts, tr)"
      using 1(2) by (subst isR2Mounted_wait.simps, auto)+
    then show ?thesis by simp
  qed
qed

lemma isR2Mounted_wait_only_sleeps:
  "\<exists>n. isR2Mounted_wait proc a tr = (a + n, tr @ replicate n (Sleep 200))"
proof (induction proc a tr rule: isR2Mounted_wait.induct)
  case (1 proc attempts tr)
  show ?case
  proof (cases "status proc attempts = ''running'' \<and> attempts < 10")
    case True
    from 1[OF True] obtain n where
      "isR2Mounted_wait proc (attempts + 1) (tr @ [Sleep 200])
         = (attempts + 1 + n, (tr @ [Sleep 200]) @ replicate n (Sleep 200))"
      by blast
    then have "isR2Mounted_wait proc attempts tr
         = (attempts + Suc n, tr @ replicate (Suc n) (Sleep 200))"
      using True by (subst isR2Mounted_wait.simps) simp
    then show ?thesis by blast
  next
    case False
    then have "isR2Mounted_wait proc attempts tr = (attempts + 0, tr @ replicate 0 (Sleep 200))"
      by (subst isR2Mounted_wait.simps) auto
    then show ?thesis by blast
  qed
qed

text \<open>One run of \<open>isR2Mounted\<close> written out, by the answer of \<open>startProcess\<close>.\<close>

lemma mounted_run_rejected:
  "mounted_run mp (Inl e) =
     (False, [StartProcess (mount_command mp), ConsoleLog [Str ''isR2Mounted error:'', Thrown e]])"
  by (simp add: mounted_run_def isR2Mounted_def)

lemma mounted_run_started:
  "\<exists>n args. mounted_run mp (Inr p) =
     (case getLogs p of Inl e \<Rightarrow> False
        | Inr lg \<Rightarrow> str_includes (or_empty (stdout lg)) ''tigrisfs'',
      StartProcess (mount_command mp) # replicate n (Sleep 200)
        @ [GetLogs (proc_id p), ConsoleLog args])
     \<and> n = fst (isR2Mounted_wait p 0 [])"
proof -
  obtain n where n: "isR2Mounted_wait p 0 [] = (0 + n, [] @ replicate n (Sleep 200))"
    using isR2Mounted_wait_only_sleeps by blast
  have w: "isR2Mounted_wait p 0 ([StartProcess (mount_command mp)] @ [])
      = (n, [StartProcess (mount_command mp)] @ replicate n (Sleep 200))"
    unfolding isR2Mounted_wait_append n by simp
  show ?thesis
    using w n
    by (cases "getLogs p")
       (simp_all add: mounted_run_def isR2Mounted_def Let_def truthy_and_includes)
qed

lemma sync_run_rejected:
  "\<not> not_configured env \<Longrightarrow>
   sync_run w mp env (Inl e) = (check_failed e, [StartProcess (mount_command mp)])"
  by (simp add: sync_run_def syncToR2_def)

lemma sync_run_started:
  assumes "\<not> not_configured env"
  shows "sync_run w mp env (Inr p) =
     (case snd (w p 5000) of
        Some e \<Rightarrow> (check_failed e, StartProcess (mount_command mp) # fst (w p 5000))
      | None \<Rightarrow>
          (case getLogs p of
             Inl e \<Rightarrow> (check_failed e,
                        StartProcess (mount_command mp) # fst (w p 5000) @ [GetLogs (proc_id p)])
           | Inr lg \<Rightarrow>
               (if str_includes (or_empty (stdout lg)) ''tigrisfs''
                then \<lparr>success = True, lastSync = Some ''live (FUSE mount active)'', error = None,
                       details = Some ''Data is written directly to R2 via FUSE mount''\<rparr>
                else \<lparr>success = False, lastSync = None, error = Some ''R2 FUSE mount not active'',
                       details = Some ''The container may need to be restarted to mount R2''\<rparr>,
                StartProcess (mount_command mp) # fst (w p 5000) @ [GetLogs (proc_id p)])))"
  using assms
  by (cases "w p 5000"; cases "snd (w p 5000)"; cases "getLogs p")
     (simp_all add: sync_run_def syncToR2_def Let_def truthy_and_includes)

lemma filter_replicate_sleep [simp]:
  "filter is_sleep (replicate n (Sleep k)) = replicate n (Sleep k)"
  "filter is_remote (replicate n (Sleep k)) = []"
  by (induction n) auto

lemma mounted_run_asks:
  "\<exists>rest. snd (mounted_run mp r) = StartProcess (mount_command mp) # rest
     \<and> (\<forall>p. r = Inr p \<longrightarrow> GetLogs (proc_id p) \<in> set rest)"
proof (cases r)
  case (Inl e)
  then show ?thesis by (simp add: mounted_run_rejected)
next
  case (Inr p)
  obtain n args where "snd (mounted_run mp (Inr p)) =
      StartProcess (mount_command mp) # replicate n (Sleep 200) @ [GetLogs (proc_id p), ConsoleLog args]"
    using mounted_run_started[of mp p] by (metis snd_conv)
  then show ?thesis using Inr by simp
qed

lemma mounted_run_verdict:
  "fst (mounted_run mp r) =
     (case r of Inl e \<Rightarrow> False
      | Inr p \<Rightarrow> (case getLogs p of Inl e \<Rightarrow> False
                   | Inr lg \<Rightarrow> (\<exists>pre post. or_empty (stdout lg) = pre @ ''tigrisfs'' @ post)))"
proof (cases r)
  case (Inl e)
  then show ?thesis by (simp add: mounted_run_rejected)
next
  case (Inr p)
  obtain n args where "mounted_run mp (Inr p) =
     (case getLogs p of Inl e \<Rightarrow> False
        | Inr lg \<Rightarrow> str_includes (or_empty (stdout lg)) ''tigrisfs'',
      StartProcess (mount_command mp) # replicate n (Sleep 200)
        @ [GetLogs (proc_id p), ConsoleLog args])"
    using mounted_run_started[of mp p] by blast
  then show ?thesis
    using Inr by (simp add: str_includes_iff split: sum.splits)
qed

lemma mounted_run_same_answer:
  assumes "same_answer r r'"
  shows "fst (mounted_run mp r') = fst (mounted_run mp r)
       \<and> length (filter is_remote (snd (mounted_run mp r')))
           = length (filter is_remote (snd (mounted_run mp r)))
       \<and> filter is_sleep (snd (mounted_run mp r')) = filter is_sleep (snd (mounted_run mp r))"
proof (cases r)
  case (Inl e)
  then have "r' = Inl e" using assms by (cases r') (simp_all add: same_answer_def)
  then show ?thesis using Inl by simp
next
  case (Inr p)
  then obtain p' where r': "r' = Inr p'" and lg: "getLogs p' = getLogs p" and st: "status p' = status p"
    using assms by (cases r') (simp_all add: same_answer_def)
  obtain n args where a: "mounted_run mp (Inr p) =
     (case getLogs p of Inl e \<Rightarrow> False
        | Inr lg \<Rightarrow> str_includes (or_empty (stdout lg)) ''tigrisfs'',
      StartProcess (mount_command mp) # replicate n (Sleep 200)
        @ [GetLogs (proc_id p), ConsoleLog args])"
    and n: "n = fst (isR2Mounted_wait p 0 [])"
    using mounted_run_started[of mp p] by blast
  obtain n' args' where b: "mounted_run mp (Inr p') =
     (case getLogs p' of Inl e \<Rightarrow> False
        | Inr lg \<Rightarrow> str_includes (or_empty (stdout lg)) ''tigrisfs'',
      StartProcess (mount_command mp) # replicate n' (Sleep 200)
        @ [GetLogs (proc_id p'), ConsoleLog args'])"
    and n': "n' = fst (isR2Mounted_wait p' 0 [])"
    using mounted_run_started[of mp p'] by blast
  have "n' = n" using n n' isR2Mounted_wait_status[OF st] by simp
  then show ?thesis
    unfolding Inr r' a b by (simp add: lg)
qed

lemma sync_run_asks:
  assumes "\<not> not_configured env"
  shows "\<exists>rest. snd (sync_run w mp env r) = StartProcess (mount_command mp) # rest
     \<and> (\<forall>p. r = Inr p \<and> snd (w p 5000) = None \<longrightarrow> GetLogs (proc_id p) \<in> set rest)"
proof (cases r)
  case (Inl e)
  then show ?thesis using assms by (simp add: sync_run_rejected)
next
  case (Inr p)
  show ?thesis
    unfolding Inr sync_run_started[OF assms]
    by (cases "snd (w p 5000)"; cases "getLogs p") simp_all
qed

lemma sync_run_verdict:
  assumes "\<not> not_configured env"
  shows "success (fst (sync_run w mp env r)) =
     (case r of Inl e \<Rightarrow> False
      | Inr p \<Rightarrow> (case snd (w p 5000) of Some e \<Rightarrow> False
          | None \<Rightarrow> (case getLogs p of Inl e \<Rightarrow> False
                   | Inr lg \<Rightarrow> (\<exists>pre post. or_empty (stdout lg) = pre @ ''tigrisfs'' @ post))))"
proof (cases r)
  case (Inl e)
  then show ?thesis using assms by (simp add: sync_run_rejected check_failed_def)
next
  case (Inr p)
  show ?thesis
    unfolding Inr sync_run_started[OF assms]
    by (cases "snd (w p 5000)"; cases "getLogs p")
       (simp_all add: check_failed_def str_includes_iff)
qed

lemma sync_run_same_answer:
  assumes "\<not> not_configured env" and "same_answer r r'"
    and "\<forall>p p'. r = Inr p \<and> r' = Inr p' \<longrightarrow> w p' 5000 = w p 5000"
  shows "fst (sync_run w mp env r') = fst (sync_run w mp env r)
       \<and> length (filter is_remote (snd (sync_run w mp env r')))
           = length (filter is_remote (snd (sync_run w mp env r)))
       \<and> filter is_sleep (snd (sync_run w mp env r')) = filter is_sleep (snd (sync_run w mp env r))"
proof (cases r)
  case (Inl e)
  then have "r' = Inl e" using assms(2) by (cases r') (simp_all add: same_answer_def)
  then show ?thesis using Inl by simp
next
  case (Inr p)
  then obtain p' where r': "r' = Inr p'" and lg: "getLogs p' = getLogs p"
    using assms(2) by (cases r') (simp_all add: same_answer_def)
  have w: "w p' 5000 = w p 5000" using assms(3) Inr r' by blast
  show ?thesis
    unfolding Inr r' sync_run_started[OF assms(1)] w lg
    by (cases "snd (w p 5000)"; cases "getLogs p") simp_all
qed

section \<open>The poll loop of the debug routes\<close>

lemma wait_then_check_terminal:
  assumes "0 < limit" and "status proc 1 \<noteq> ''running''"
  shows "wait_then_check limit interval proc 0 0 tr = (0, 1, tr @ [Sleep interval])"
  using assms by (subst wait_then_check.simps) simp

section \<open>Sorting with the comparator\<close>

lemma mset_insert_sorted: "mset (insert_sorted cmp x ys) = add_mset x (mset ys)"
  by (induction ys) auto

lemma mset_stable_sort: "mset (stable_sort cmp xs) = mset xs"
  by (induction xs) (auto simp: mset_insert_sorted)

lemma mset_array_sort: "mset (array_sort comparefn xs) = mset xs"
  by (simp add: array_sort_def mset_stable_sort)









lemma compare_data_same_status:
  assumes "coll t t \<le> 0"
    and "data_status a = data_status b"
    and "or_empty (data_startTime a) = t" and "or_empty (data_startTime b) = t"
  shows "sort_compare (compare_data coll a b) \<le> 0"
  using assms by (simp add: compare_data_def Let_def)

section \<open>The listing\<close>

text \<open>The record the callback builds for a process whose dates are valid.\<close>

lemma opt_toISOString_valid:
  "d \<noteq> Some InvalidDate \<Longrightarrow>
   opt_toISOString d = Inr (case d of Some (Date s) \<Rightarrow> Some s | _ \<Rightarrow> None)"
  by (cases d rule: opt_toISOString.cases) (auto split: js_date.splits)

lemma promise_all_resolved: "promise_all (map Inr xs) = Inr xs"
  by (induction xs) auto


lemma process_data_settles:
  assumes "startTime p \<noteq> Some InvalidDate" and "endTime p \<noteq> Some InvalidDate"
  shows "\<exists>d. process_data incl p = (Inr d, if incl then [GetLogs (proc_id p)] else [])
     \<and> data_id d = proc_id p \<and> data_status d = status p 0
     \<and> data_startTime d = (case startTime p of Some (Date s) \<Rightarrow> Some s | _ \<Rightarrow> None)
     \<and> (incl \<longrightarrow> (case getLogs p of
            Inl e \<Rightarrow> data_logs_error d = Some ''Failed to retrieve logs''
                   \<and> data_stdout d = None \<and> data_stderr d = None
          | Inr lg \<Rightarrow> data_logs_error d = None
                   \<and> data_stdout d = Some (or_empty (stdout lg))
                   \<and> data_stderr d = Some (or_empty (stderr lg))))"
  using assms
  by (cases "getLogs p")
     (simp_all add: process_data_def opt_toISOString_valid Let_def)

lemma settled_all:
  assumes "\<forall>p\<in>set procs. startTime p \<noteq> Some InvalidDate \<and> endTime p \<noteq> Some InvalidDate"
  shows "map (\<lambda>p. fst (process_data incl p)) procs
           = map Inr (map (\<lambda>p. projr (fst (process_data incl p))) procs)
       \<and> concat (map (\<lambda>p. snd (process_data incl p)) procs)
           = (if incl then map (\<lambda>p. GetLogs (proc_id p)) procs else [])"
  using assms
proof (induction procs)
  case Nil
  then show ?case by simp
next
  case (Cons p ps)
  obtain d where "process_data incl p = (Inr d, if incl then [GetLogs (proc_id p)] else [])"
    using process_data_settles[of p incl] Cons.prems by auto
  then show ?case using Cons by simp
qed

lemma debug_processes_resolved:
  assumes "listProcesses sb tr = Inr procs"
    and "\<forall>p\<in>set procs. startTime p \<noteq> Some InvalidDate \<and> endTime p \<noteq> Some InvalidDate"
  shows "debug_processes coll sb q tr =
           (ProcessesOk (length procs)
              (array_sort (compare_data coll)
                 (map (\<lambda>p. projr (fst (process_data (q = Some ''true'') p))) procs)),
            tr @ ListProcesses #
              (if q = Some ''true'' then map (\<lambda>p. GetLogs (proc_id p)) procs else []))"
proof -
  define incl where "incl = (q = Some ''true'')"
  define settled where "settled = map (process_data incl) procs"
  note s = settled_all[OF assms(2), of incl]
  have a: "map fst settled = map Inr (map (\<lambda>p. projr (fst (process_data incl p))) procs)"
    using s by (simp add: settled_def comp_def)
  have b: "concat (map snd settled) = (if incl then map (\<lambda>p. GetLogs (proc_id p)) procs else [])"
    using s by (simp add: settled_def comp_def)
  have pa: "promise_all (map fst settled)
        = Inr (map (\<lambda>p. projr (fst (process_data incl p))) procs)"
    by (simp only: a promise_all_resolved)
  have "debug_processes coll sb q tr =
          (case promise_all (map fst settled) of
             Inl err \<Rightarrow> (ProcessesError (errorMessage err),
                         (tr @ [ListProcesses]) @ concat (map snd settled))
           | Inr processData \<Rightarrow>
               (ProcessesOk (length procs) (array_sort (compare_data coll) processData),
                (tr @ [ListProcesses]) @ concat (map snd settled)))"
    using assms(1) unfolding debug_processes_def Let_def incl_def settled_def by simp
  then have "debug_processes coll sb q tr =
          (ProcessesOk (length procs)
             (array_sort (compare_data coll) (map (\<lambda>p. projr (fst (process_data incl p))) procs)),
           (tr @ [ListProcesses]) @ (if incl then map (\<lambda>p. GetLogs (proc_id p)) procs else []))"
    unfolding pa b by simp
  then show ?thesis unfolding incl_def by simp
qed

section \<open>The fixtures' answers\<close>

lemma mock_resolves:
  "startProcess (mockResolvedValue p) tr c = Inr p"
  by (simp add: mockResolvedValue_def)

lemma mock_logs:
  "getLogs (createMockProcess out) = Inr \<lparr>stdout = Some out, stderr = Some []\<rparr>"
  by (simp add: createMockProcess_def)

lemma mock_env_configured: "\<not> not_configured createMockEnvWithR2"
  by (simp add: createMockEnvWithR2_def not_configured_def)

lemma no_wait_returns: "snd (no_wait p t) = None"
  by (simp add: no_wait_def)

lemma mock_rejects: "startProcess (mockRejectedValue e) tr c = Inl e"
  by (simp add: mockRejectedValue_def)

lemma sample_listed: "listProcesses (mockListing sample_processes) tr = Inr sample_processes"
  by (simp add: mockListing_def)

lemma sample_dates:
  "\<forall>p\<in>set sample_processes. startTime p \<noteq> Some InvalidDate \<and> endTime p \<noteq> Some InvalidDate"
  by (simp add: sample_processes_def mockProcessWith_def)

lemma mock_logs2:
  "getLogs (mockProcessLogs out err) = Inr \<lparr>stdout = Some out, stderr = Some err\<rparr>"
  by (simp add: mockProcessLogs_def)

lemma mock_terminal: "status (createMockProcess out) n \<noteq> ''running''"
  by (simp add: createMockProcess_def)

lemma codeunit_collation_le [simp]: "codeunit_collation a b \<le> 0 \<longleftrightarrow> a \<le> b"
  by (auto simp: codeunit_collation_def)


section \<open>The claims\<close>

text \<open>
  C1. When at least one of \<open>R2_ACCESS_KEY_ID\<close>, \<open>R2_SECRET_ACCESS_KEY\<close>, \<open>CF_ACCOUNT_ID\<close> is
  absent from the environment, the mount check returns a negative result with a
  configuration-specific error and makes no remote call: \<open>mountR2Storage\<close> returns \<open>false\<close>
  and its only effect is the console message \<open>R2 storage not configured (...)\<close>;
  \<open>syncToR2\<close> returns \<open>success = false\<close> with the error \<open>R2 storage is not configured\<close> and
  leaves the history as it was. Neither starts a process or fetches logs.
\<close>

theorem missing_credential_short_circuits:
  assumes "R2_ACCESS_KEY_ID env = None \<or> R2_SECRET_ACCESS_KEY env = None \<or> CF_ACCOUNT_ID env = None"
  shows "mountR2Storage mp sb env tr =
           (False, tr @ [ConsoleLog [Str
             ''R2 storage not configured (missing R2_ACCESS_KEY_ID, R2_SECRET_ACCESS_KEY, or CF_ACCOUNT_ID)'']])
         \<and> filter is_remote (snd (mountR2Storage mp sb env tr)) = filter is_remote tr
         \<and> syncToR2 w mp sb env tr =
             (\<lparr>success = False, lastSync = None, error = Some ''R2 storage is not configured'',
               details = None\<rparr>, tr)"
  using absent_not_configured[OF assms] by (simp add: mountR2Storage_def syncToR2_def)

theorem missing_credential_short_circuits_witness:
  "mountR2Storage ''/data/moltbot'' (mockResolvedValue (createMockProcess ''tigrisfs on /data/moltbot''))
     (createMockEnvWithR2\<lparr>CF_ACCOUNT_ID := None\<rparr>) [] =
     (False, [ConsoleLog [Str
        ''R2 storage not configured (missing R2_ACCESS_KEY_ID, R2_SECRET_ACCESS_KEY, or CF_ACCOUNT_ID)'']])
   \<and> syncToR2 no_wait ''/data/moltbot'' (mockResolvedValue (createMockProcess ''tigrisfs on /data/moltbot''))
     (createMockEnvWithR2\<lparr>R2_ACCESS_KEY_ID := None\<rparr>) [] =
     (\<lparr>success = False, lastSync = None, error = Some ''R2 storage is not configured'',
       details = None\<rparr>, [])"
proof -
  have a: "R2_ACCESS_KEY_ID (createMockEnvWithR2\<lparr>CF_ACCOUNT_ID := None\<rparr>) = None
         \<or> R2_SECRET_ACCESS_KEY (createMockEnvWithR2\<lparr>CF_ACCOUNT_ID := None\<rparr>) = None
         \<or> CF_ACCOUNT_ID (createMockEnvWithR2\<lparr>CF_ACCOUNT_ID := None\<rparr>) = None"
    by simp
  have b: "R2_ACCESS_KEY_ID (createMockEnvWithR2\<lparr>R2_ACCESS_KEY_ID := None\<rparr>) = None
         \<or> R2_SECRET_ACCESS_KEY (createMockEnvWithR2\<lparr>R2_ACCESS_KEY_ID := None\<rparr>) = None
         \<or> CF_ACCOUNT_ID (createMockEnvWithR2\<lparr>R2_ACCESS_KEY_ID := None\<rparr>) = None"
    by simp
  show ?thesis
    using missing_credential_short_circuits[OF a, where tr = "[]"]
      missing_credential_short_circuits[OF b, where tr = "[]"]
    by simp
qed

text \<open>
  C2. For every log snapshot that the mount command's handle returns, \<open>isR2Mounted\<close> and
  \<open>syncToR2\<close> give a positive verdict exactly when the captured stdout contains the
  case-sensitive marker \<open>tigrisfs\<close> as a substring. The examples: the marker line gives
  \<open>true\<close>, another filesystem at the same path (\<open>s3fs on /data/moltbot type fuse.s3fs\<close>)
  gives \<open>false\<close>, and empty stdout gives \<open>false\<close>.
\<close>

theorem mounted_iff_marker_in_stdout:
  assumes "startProcess sb tr (mount_command mp) = Inr proc"
    and "getLogs proc = Inr lg"
    and "\<not> not_configured env"
    and "snd (w proc 5000) = None"
  shows "fst (isR2Mounted mp sb tr) = (\<exists>pre post. or_empty (stdout lg) = pre @ ''tigrisfs'' @ post)
       \<and> success (fst (syncToR2 w mp sb env tr))
           = (\<exists>pre post. or_empty (stdout lg) = pre @ ''tigrisfs'' @ post)"
  using isR2Mounted_resolved[OF assms(1,2)] syncToR2_resolved[where w = w, OF assms(3,1,4,2)]
  by (simp only: str_includes_iff)

theorem mounted_iff_marker_in_stdout_witness:
  "fst (isR2Mounted ''/data/moltbot''
         (mockResolvedValue (createMockProcess ''tigrisfs on /data/moltbot type fuse.tigrisfs\<newline>'')) [])
   \<and> success (fst (syncToR2 no_wait ''/data/moltbot''
         (mockResolvedValue (createMockProcess ''tigrisfs on /data/moltbot type fuse.tigrisfs\<newline>''))
         createMockEnvWithR2 []))
   \<and> \<not> fst (isR2Mounted ''/data/moltbot''
         (mockResolvedValue (createMockProcess ''s3fs on /data/moltbot type fuse.s3fs\<newline>'')) [])
   \<and> \<not> success (fst (syncToR2 no_wait ''/data/moltbot''
         (mockResolvedValue (createMockProcess ''s3fs on /data/moltbot type fuse.s3fs\<newline>''))
         createMockEnvWithR2 []))
   \<and> \<not> fst (isR2Mounted ''/data/moltbot'' (mockResolvedValue (createMockProcess '''')) [])
   \<and> \<not> success (fst (syncToR2 no_wait ''/data/moltbot'' (mockResolvedValue (createMockProcess ''''))
         createMockEnvWithR2 []))"
proof -
  note t = mounted_iff_marker_in_stdout[where w = no_wait,
      OF mock_resolves mock_logs mock_env_configured no_wait_returns,
      unfolded str_includes_iff[symmetric]]
  show ?thesis
    using t[of "''/data/moltbot''" "''tigrisfs on /data/moltbot type fuse.tigrisfs\<newline>''" "[]"]
      t[of "''/data/moltbot''" "''s3fs on /data/moltbot type fuse.s3fs\<newline>''" "[]"]
      t[of "''/data/moltbot''" "''''" "[]"]
    by simp
qed





text \<open>
  C4, as amended. The loop of \<open>isR2Mounted\<close> checks the status before it waits: a handle
  that is not \<open>running\<close> at the first check costs no timed wait, and the logs are fetched
  right after \<open>startProcess\<close>. The loops of \<open>GET /debug/cli\<close> and
  \<open>GET /debug/container-config\<close> wait before they check: a handle that is not \<open>running\<close> at
  their first check has cost exactly one timed wait (500 ms, 200 ms) before the logs are
  fetched, and \<open>attempts\<close> is 0.
\<close>

theorem first_check_terminal_waits:
  "(startProcess sb tr (mount_command mp) = Inr proc \<and> status proc 0 \<noteq> ''running''
      \<longrightarrow> (\<exists>args. snd (isR2Mounted mp sb tr)
            = tr @ [StartProcess (mount_command mp), GetLogs (proc_id proc), ConsoleLog args]))
 \<and> (startProcess sb tr (if truthy q then or_empty q else ''clawdbot --help'') = Inr proc
      \<and> status proc 1 \<noteq> ''running''
      \<longrightarrow> snd (debug_cli sb q tr)
            = tr @ [StartProcess (if truthy q then or_empty q else ''clawdbot --help''),
                    Sleep 500, GetLogs (proc_id proc)]
        \<and> (\<forall>r. fst (debug_cli sb q tr) = CliOk r \<longrightarrow> cli_attempts r = 0))
 \<and> (startProcess sb tr ''cat /root/.clawdbot/clawdbot.json'' = Inr proc
      \<and> status proc 1 \<noteq> ''running''
      \<longrightarrow> snd (debug_container_config P sb tr)
            = tr @ [StartProcess ''cat /root/.clawdbot/clawdbot.json'',
                    Sleep 200, GetLogs (proc_id proc)])"
proof -
  have mount: "startProcess sb tr (mount_command mp) = Inr proc \<and> status proc 0 \<noteq> ''running''
      \<longrightarrow> (\<exists>args. snd (isR2Mounted mp sb tr)
            = tr @ [StartProcess (mount_command mp), GetLogs (proc_id proc), ConsoleLog args])"
  proof (rule impI)
    assume "startProcess sb tr (mount_command mp) = Inr proc \<and> status proc 0 \<noteq> ''running''"
    then show "\<exists>args. snd (isR2Mounted mp sb tr)
            = tr @ [StartProcess (mount_command mp), GetLogs (proc_id proc), ConsoleLog args]"
      by (cases "getLogs proc") (simp_all add: isR2Mounted_def Let_def isR2Mounted_wait_terminal)
  qed
  have cli: "startProcess sb tr (if truthy q then or_empty q else ''clawdbot --help'') = Inr proc
      \<and> status proc 1 \<noteq> ''running''
      \<longrightarrow> snd (debug_cli sb q tr)
            = tr @ [StartProcess (if truthy q then or_empty q else ''clawdbot --help''),
                    Sleep 500, GetLogs (proc_id proc)]
        \<and> (\<forall>r. fst (debug_cli sb q tr) = CliOk r \<longrightarrow> cli_attempts r = 0)"
  proof (rule impI)
    assume "startProcess sb tr (if truthy q then or_empty q else ''clawdbot --help'') = Inr proc
       \<and> status proc 1 \<noteq> ''running''"
    then have a: "startProcess sb tr (if truthy q then or_empty q else ''clawdbot --help'') = Inr proc"
       "status proc 1 \<noteq> ''running''" by simp_all
    have w: "wait_then_check 30 500 proc 0 0 tr' = (0, 1, tr' @ [Sleep 500])" for tr'
      using a(2) by (simp add: wait_then_check_terminal)
    show "snd (debug_cli sb q tr)
            = tr @ [StartProcess (if truthy q then or_empty q else ''clawdbot --help''),
                    Sleep 500, GetLogs (proc_id proc)]
        \<and> (\<forall>r. fst (debug_cli sb q tr) = CliOk r \<longrightarrow> cli_attempts r = 0)"
      using a(1) by (cases "getLogs proc") (auto simp add: debug_cli_def Let_def w)
  qed
  have cfg: "startProcess sb tr ''cat /root/.clawdbot/clawdbot.json'' = Inr proc
      \<and> status proc 1 \<noteq> ''running''
      \<longrightarrow> snd (debug_container_config P sb tr)
            = tr @ [StartProcess ''cat /root/.clawdbot/clawdbot.json'',
                    Sleep 200, GetLogs (proc_id proc)]"
  proof (rule impI)
    assume "startProcess sb tr ''cat /root/.clawdbot/clawdbot.json'' = Inr proc
       \<and> status proc 1 \<noteq> ''running''"
    then have a: "startProcess sb tr ''cat /root/.clawdbot/clawdbot.json'' = Inr proc"
       "status proc 1 \<noteq> ''running''" by simp_all
    have w: "wait_then_check 10 200 proc 0 0 tr' = (0, 1, tr' @ [Sleep 200])" for tr'
      using a(2) by (simp add: wait_then_check_terminal)
    show "snd (debug_container_config P sb tr)
            = tr @ [StartProcess ''cat /root/.clawdbot/clawdbot.json'',
                    Sleep 200, GetLogs (proc_id proc)]"
      using a(1) by (cases "getLogs proc") (simp_all add: debug_container_config_def Let_def w)
  qed
  show ?thesis
    by (rule conjI[OF mount conjI[OF cli cfg]])
qed

theorem first_check_terminal_waits_witness:
  "filter is_sleep (snd (isR2Mounted ''/data/moltbot'' (mockResolvedValue (createMockProcess [])) [])) = []
   \<and> snd (debug_cli (mockResolvedValue (createMockProcess ''help'')) None [])
       = [StartProcess ''clawdbot --help'', Sleep 500, GetLogs ''mock-process'']
   \<and> snd (debug_container_config parse_two_texts (mockResolvedValue (createMockProcess ''{}'')) [])
       = [StartProcess ''cat /root/.clawdbot/clawdbot.json'', Sleep 200, GetLogs ''mock-process'']"
proof -
  note t = first_check_terminal_waits[where sb = "mockResolvedValue (createMockProcess out)"
      and proc = "createMockProcess out" and tr = "[]" and q = None and mp = "''/data/moltbot''"
      and P = parse_two_texts for out]
  have m: "\<exists>args. snd (isR2Mounted ''/data/moltbot'' (mockResolvedValue (createMockProcess [])) [])
      = [] @ [StartProcess (mount_command ''/data/moltbot''), GetLogs (proc_id (createMockProcess [])),
              ConsoleLog args]"
    using t[of "[]"] mock_resolves mock_terminal by blast
  have c: "snd (debug_cli (mockResolvedValue (createMockProcess ''help'')) None [])
       = [] @ [StartProcess (if truthy None then or_empty None else ''clawdbot --help''),
               Sleep 500, GetLogs (proc_id (createMockProcess ''help''))]"
    using t[of "''help''"] mock_resolves mock_terminal by blast
  have k: "snd (debug_container_config parse_two_texts (mockResolvedValue (createMockProcess ''{}'')) [])
       = [] @ [StartProcess ''cat /root/.clawdbot/clawdbot.json'', Sleep 200,
               GetLogs (proc_id (createMockProcess ''{}''))]"
    using t[of "''{}''"] mock_resolves mock_terminal by blast
  from m obtain args where
    "snd (isR2Mounted ''/data/moltbot'' (mockResolvedValue (createMockProcess [])) [])
      = [StartProcess (mount_command ''/data/moltbot''), GetLogs (proc_id (createMockProcess [])),
         ConsoleLog args]"
    by auto
  then show ?thesis using c k by (simp add: createMockProcess_def)
qed

text \<open>
  C4 as stated gives every poll loop zero timed waits on a handle that is already terminal.
  A handle that is \<open>completed\<close> from the start still costs \<open>/debug/cli\<close> one wait of 500 ms and
  \<open>/debug/container-config\<close> one wait of 200 ms.
\<close>

theorem cli_waits_before_first_check:
  "status (createMockProcess ''help'') 0 \<noteq> ''running''
   \<and> filter is_sleep (snd (debug_cli (mockResolvedValue (createMockProcess ''help'')) None []))
       = [Sleep 500]
   \<and> filter is_sleep (snd (debug_container_config parse_two_texts
         (mockResolvedValue (createMockProcess ''{}'')) []))
       = [Sleep 200]"
  by (simp add: debug_cli_def debug_container_config_def mockResolvedValue_def createMockProcess_def
      wait_then_check.simps Let_def)

text \<open>
  C5, as amended. When \<open>startProcess\<close> rejects with an \<open>Error\<close> whose message is \<open>m\<close>,
  \<open>syncToR2\<close> returns \<open>success = false\<close>, the error \<open>Failed to check mount status\<close> and
  \<open>details = m\<close>, the message verbatim. \<open>isR2Mounted\<close> returns the bare boolean \<open>false\<close>; it
  hands the rejection to \<open>console.log\<close> after the text \<open>isR2Mounted error:\<close>. Neither passes
  the failure on to its caller: both return a value.
\<close>

theorem start_rejection_reported:
  assumes "startProcess sb tr (mount_command mp) = Inl (JsError m)"
    and "\<not> not_configured env"
  shows "syncToR2 w mp sb env tr =
           (\<lparr>success = False, lastSync = None, error = Some ''Failed to check mount status'',
             details = Some m\<rparr>, tr @ [StartProcess (mount_command mp)])
       \<and> isR2Mounted mp sb tr =
           (False, tr @ [StartProcess (mount_command mp),
                         ConsoleLog [Str ''isR2Mounted error:'', Thrown (JsError m)]])"
  using assms by (simp add: syncToR2_def isR2Mounted_def check_failed_def)

theorem start_rejection_reported_witness:
  "details (fst (syncToR2 no_wait ''/data/moltbot'' (mockRejectedValue (JsError ''Command failed''))
       createMockEnvWithR2 [])) = Some ''Command failed''
   \<and> fst (isR2Mounted ''/data/moltbot'' (mockRejectedValue (JsError ''Command failed'')) []) = False"
  using start_rejection_reported[OF mock_rejects mock_env_configured,
      where mp = "''/data/moltbot''" and m = "''Command failed''" and tr = "[]" and w = no_wait]
  by simp

text \<open>
  C5 as stated asks for the message in a detail field of the verdict of both entry points.
  The verdict of \<open>isR2Mounted\<close> is a boolean: two rejections with different messages give
  the same returned value, so no field of it holds the message.
\<close>

theorem isR2Mounted_result_has_no_detail:
  "fst (isR2Mounted ''/data/moltbot'' (mockRejectedValue (JsError ''Process failed'')) [])
     = fst (isR2Mounted ''/data/moltbot'' (mockRejectedValue (JsError ''Command failed'')) [])
   \<and> ''Process failed'' \<noteq> ''Command failed''"
  by (simp add: isR2Mounted_def mockRejectedValue_def)

text \<open>
  C6. In \<open>GET /debug/container-config\<close>, once the command has started and its logs have
  arrived, the response is the success response whatever the captured stdout is: a parse
  failure is never raised, it is data. If stdout is not valid JSON (\<open>JSON.parse\<close> throws),
  \<open>config\<close> is \<open>null\<close> and \<open>raw\<close> is the stdout; \<open>config\<close> is non-null only when stdout
  is valid JSON, and then it is the parsed value; and whenever \<open>config\<close> is \<open>null\<close>, \<open>raw\<close>
  holds the stdout.
\<close>

theorem parse_failure_is_data:
  assumes "startProcess sb tr ''cat /root/.clawdbot/clawdbot.json'' = Inr proc"
    and "getLogs proc = Inr lg"
  shows "\<exists>r. fst (debug_container_config P sb tr) = ConfigOk r
      \<and> (P (or_empty (stdout lg)) = None
           \<longrightarrow> cfg_config r = JNull \<and> cfg_raw r = Some (or_empty (stdout lg)))
      \<and> (cfg_config r \<noteq> JNull \<longrightarrow> P (or_empty (stdout lg)) = Some (cfg_config r))
      \<and> (cfg_config r = JNull \<longrightarrow> cfg_raw r = Some (or_empty (stdout lg)))"
proof -
  obtain a n tr1 where w: "wait_then_check 10 200 proc 0 0
      (tr @ [StartProcess ''cat /root/.clawdbot/clawdbot.json'']) = (a, n, tr1)"
    using prod_cases3 by blast
  show ?thesis
    using assms w
    by (cases "P (or_empty (stdout lg))") (simp_all add: debug_container_config_def Let_def)
qed

theorem parse_failure_is_data_witness:
  "fst (debug_container_config parse_two_texts (mockResolvedValue (createMockProcess ''not json'')) [])
     = ConfigOk \<lparr>cfg_status = ''completed'', cfg_exitCode = Some 0, cfg_config = JNull,
                 cfg_raw = Some ''not json'', cfg_stderr = []\<rparr>
   \<and> fst (debug_container_config parse_two_texts (mockResolvedValue (createMockProcess ''{}'')) [])
     = ConfigOk \<lparr>cfg_status = ''completed'', cfg_exitCode = Some 0, cfg_config = JObject [],
                 cfg_raw = None, cfg_stderr = []\<rparr>"
proof -
  obtain r where r: "fst (debug_container_config parse_two_texts
        (mockResolvedValue (createMockProcess ''not json'')) []) = ConfigOk r"
    and n: "parse_two_texts (or_empty (stdout \<lparr>stdout = Some ''not json'', stderr = Some []\<rparr>)) = None
           \<longrightarrow> cfg_config r = JNull
             \<and> cfg_raw r = Some (or_empty (stdout \<lparr>stdout = Some ''not json'', stderr = Some []\<rparr>))"
    using parse_failure_is_data[OF mock_resolves mock_logs, where P = parse_two_texts and tr = "[]"
        and out1 = "''not json''"]
    by (elim exE conjE) (rule that; assumption)
  have "cfg_config r = JNull \<and> cfg_raw r = Some ''not json''"
    using n by (simp add: parse_two_texts_def)
  moreover have "cfg_status r = ''completed'' \<and> cfg_exitCode r = Some 0 \<and> cfg_stderr r = []"
    using r by (auto simp add: debug_container_config_def mockResolvedValue_def createMockProcess_def
        wait_then_check.simps Let_def)
  ultimately have "r = \<lparr>cfg_status = ''completed'', cfg_exitCode = Some 0, cfg_config = JNull,
                 cfg_raw = Some ''not json'', cfg_stderr = []\<rparr>"
    by (cases r) simp
  moreover have "fst (debug_container_config parse_two_texts
        (mockResolvedValue (createMockProcess ''{}'')) [])
     = ConfigOk \<lparr>cfg_status = ''completed'', cfg_exitCode = Some 0, cfg_config = JObject [],
                 cfg_raw = None, cfg_stderr = []\<rparr>"
    by (simp add: debug_container_config_def mockResolvedValue_def createMockProcess_def
        wait_then_check.simps Let_def parse_two_texts_def)
  ultimately show ?thesis using r by simp
qed

text \<open>
  C7. When logs are requested (\<open>?logs=true\<close>), a failing \<open>getLogs\<close> of one handle does not
  fail the listing of a process table (with valid dates): the response is the success
  response with one record per handle; the record of a handle whose \<open>getLogs\<close> rejects has
  \<open>logs_error = 'Failed to retrieve logs'\<close> and neither \<open>stdout\<close> nor \<open>stderr\<close>; every
  other record has its \<open>stdout\<close> and \<open>stderr\<close> and no \<open>logs_error\<close>; and \<open>getLogs\<close> is called
  once for every handle.
\<close>

theorem log_failure_marks_one_record:
  assumes "listProcesses sb tr = Inr procs"
    and "\<forall>p\<in>set procs. startTime p \<noteq> Some InvalidDate \<and> endTime p \<noteq> Some InvalidDate"
  shows "\<exists>us ds.
      fst (debug_processes coll sb (Some ''true'') tr) = ProcessesOk (length procs) ds
    \<and> mset ds = mset us
    \<and> length us = length procs
    \<and> (\<forall>i<length procs.
          fst (process_data True (procs ! i)) = Inr (us ! i)
        \<and> data_id (us ! i) = proc_id (procs ! i)
        \<and> (case getLogs (procs ! i) of
              Inl e \<Rightarrow> data_logs_error (us ! i) = Some ''Failed to retrieve logs''
                     \<and> data_stdout (us ! i) = None \<and> data_stderr (us ! i) = None
            | Inr lg \<Rightarrow> data_logs_error (us ! i) = None
                     \<and> data_stdout (us ! i) = Some (or_empty (stdout lg))
                     \<and> data_stderr (us ! i) = Some (or_empty (stderr lg))))
    \<and> snd (debug_processes coll sb (Some ''true'') tr)
        = tr @ ListProcesses # map (\<lambda>p. GetLogs (proc_id p)) procs"
proof -
  define us where "us = map (\<lambda>p. projr (fst (process_data True p))) procs"
  define ds where "ds = array_sort (compare_data coll) us"
  have res: "debug_processes coll sb (Some ''true'') tr
       = (ProcessesOk (length procs) ds, tr @ ListProcesses # map (\<lambda>p. GetLogs (proc_id p)) procs)"
    using debug_processes_resolved[OF assms, of coll "Some ''true''"] by (simp add: ds_def us_def)
  have perm: "mset ds = mset us"
    by (simp add: ds_def mset_array_sort)
  have len: "length us = length procs"
    by (simp add: us_def)
  have each: "fst (process_data True (procs ! i)) = Inr (us ! i)
        \<and> data_id (us ! i) = proc_id (procs ! i)
        \<and> (case getLogs (procs ! i) of
              Inl e \<Rightarrow> data_logs_error (us ! i) = Some ''Failed to retrieve logs''
                     \<and> data_stdout (us ! i) = None \<and> data_stderr (us ! i) = None
            | Inr lg \<Rightarrow> data_logs_error (us ! i) = None
                     \<and> data_stdout (us ! i) = Some (or_empty (stdout lg))
                     \<and> data_stderr (us ! i) = Some (or_empty (stderr lg)))"
    if "i < length procs" for i
  proof -
    have "procs ! i \<in> set procs" using that by simp
    then obtain d where d: "process_data True (procs ! i) = (Inr d, [GetLogs (proc_id (procs ! i))])"
      "data_id d = proc_id (procs ! i)"
      "case getLogs (procs ! i) of
            Inl e \<Rightarrow> data_logs_error d = Some ''Failed to retrieve logs''
                   \<and> data_stdout d = None \<and> data_stderr d = None
          | Inr lg \<Rightarrow> data_logs_error d = None
                   \<and> data_stdout d = Some (or_empty (stdout lg))
                   \<and> data_stderr d = Some (or_empty (stderr lg))"
      using process_data_settles[of "procs ! i" True] assms(2) by auto
    have u: "us ! i = d" using that d(1) by (simp add: us_def)
    show ?thesis unfolding u using d by simp
  qed
  show ?thesis
    using res perm len each by (intro exI[of _ us] exI[of _ ds]) simp
qed

theorem log_failure_marks_one_record_witness:
  "map (\<lambda>d. (data_id d, data_stdout d, data_stderr d, data_logs_error d))
     (processes (fst (debug_processes codeunit_collation (mockListing sample_processes) (Some ''true'') [])))
   = [(''p5'', Some ''up'', Some [], None),
      (''p2'', None, None, Some ''Failed to retrieve logs''),
      (''p7'', Some ''twin'', Some [], None),
      (''p3'', Some ''up'', Some ''warn'', None),
      (''p1'', Some ''done'', Some [], None),
      (''p6'', Some [], Some ''boom'', None),
      (''p4'', Some [], Some [], None)]
   \<and> count (fst (debug_processes codeunit_collation (mockListing sample_processes) (Some ''true'') [])) = 7
   \<and> snd (debug_processes codeunit_collation (mockListing sample_processes) (Some ''true'') [])
       = ListProcesses # map (\<lambda>p. GetLogs (proc_id p)) sample_processes"
proof -
  obtain us ds where
    r: "fst (debug_processes codeunit_collation (mockListing sample_processes) (Some ''true'') [])
          = ProcessesOk (length sample_processes) ds"
    and e: "snd (debug_processes codeunit_collation (mockListing sample_processes) (Some ''true'') [])
        = [] @ ListProcesses # map (\<lambda>p. GetLogs (proc_id p)) sample_processes"
    using log_failure_marks_one_record[OF sample_listed sample_dates,
        where tr = "[]" and coll = codeunit_collation]
    by (elim exE conjE) (rule that; assumption)
  have "map (\<lambda>d. (data_id d, data_stdout d, data_stderr d, data_logs_error d))
     (processes (fst (debug_processes codeunit_collation (mockListing sample_processes) (Some ''true'') [])))
   = [(''p5'', Some ''up'', Some [], None),
      (''p2'', None, None, Some ''Failed to retrieve logs''),
      (''p7'', Some ''twin'', Some [], None),
      (''p3'', Some ''up'', Some ''warn'', None),
      (''p1'', Some ''done'', Some [], None),
      (''p6'', Some [], Some ''boom'', None),
      (''p4'', Some [], Some [], None)]"
    by (simp add: debug_processes_def mockListing_def sample_processes_def mockProcessWith_def
      process_data_def compare_data_def status_or_99_def statusOrder_def object_prototype_members_def
      codeunit_collation_def array_sort_def Let_def)
  moreover have "length sample_processes = 7"
    by (simp add: sample_processes_def)
  ultimately show ?thesis using r e by simp
qed

text \<open>
  C8, as amended. When both version commands start and their logs arrive,
  \<open>clawdbot_version\<close> is the trimmed first non-empty stream among stdout and stderr,
  stdout preferred (the empty string when both are empty or missing); \<open>node_version\<close> is
  the trimmed stdout, the empty string when stdout is empty or missing: stderr of
  \<open>node --version\<close> is not read.
\<close>

theorem version_extraction:
  assumes "startProcess sb tr ''clawdbot --version'' = Inr vp"
    and "getLogs vp = Inr vl"
    and "startProcess sb (tr @ [StartProcess ''clawdbot --version'', Sleep 500, GetLogs (proc_id vp)])
           ''node --version'' = Inr np"
    and "getLogs np = Inr nl"
  shows "fst (debug_version sb tr) =
           VersionOk
             (trim (case stdout vl of
                      Some (c # cs) \<Rightarrow> c # cs
                    | _ \<Rightarrow> (case stderr vl of Some (c # cs) \<Rightarrow> c # cs | _ \<Rightarrow> [])))
             (trim (case stdout nl of Some (c # cs) \<Rightarrow> c # cs | _ \<Rightarrow> []))"
  using assms
  by (simp add: debug_version_def Let_def split: option.splits list.splits)

theorem version_extraction_witness:
  "fst (debug_version (mockResolvedValue (mockProcessLogs [] '' 2026.1.24-3 \<newline>'')) [])
     = VersionOk ''2026.1.24-3'' []"
  using version_extraction[OF mock_resolves mock_logs2 mock_resolves mock_logs2,
      where tr = "[]" and ?out1 = "[]" and ?err1 = "'' 2026.1.24-3 \<newline>''"]
  by (simp add: trim_def is_space_def)

text \<open>
  C8 as stated takes the stderr fallback for every version extraction of the endpoint.
  With empty stdout and the version on stderr, \<open>clawdbot_version\<close> is the version and
  \<open>node_version\<close> is empty.
\<close>

theorem node_version_ignores_stderr:
  "node_version (fst (debug_version
      (mockResolvedValue (mockProcessLogs [] ''v20.11.0\<newline>'')) [])) = []
   \<and> clawdbot_version (fst (debug_version
      (mockResolvedValue (mockProcessLogs [] ''v20.11.0\<newline>'')) [])) = ''v20.11.0''"
  by (simp add: debug_version_def mockResolvedValue_def mockProcessLogs_def Let_def trim_def is_space_def)

text \<open>
  C9. Calling a mount detector twice in succession, the second call on the history the
  first one left. The second call asks the backend again: it starts the mount command
  anew and fetches the logs of the handle it is given, and its verdict is read from that
  second answer alone (the marker in the captured stdout), whatever the first call
  returned and whatever the history holds. So when the backend gives the second call the
  same response as the first (the same rejection, or a handle, possibly with a fresh id,
  with the same \<open>getLogs\<close> response and the same statuses), the second verdict equals the
  first, and the second call makes as many remote calls and as many timed waits as the
  first: it is neither cheaper nor different. This holds for \<open>isR2Mounted\<close> and, with the
  credentials configured, for \<open>syncToR2\<close> (whose waits are those of \<open>waitForProcess\<close>).
\<close>

theorem second_check_asks_the_backend_again:
  assumes "\<not> not_configured env"
  shows
   "(\<exists>rest. snd (isR2Mounted mp sb (snd (isR2Mounted mp sb tr)))
        = snd (isR2Mounted mp sb tr) @ StartProcess (mount_command mp) # rest
      \<and> (\<forall>p. startProcess sb (snd (isR2Mounted mp sb tr)) (mount_command mp) = Inr p
             \<longrightarrow> GetLogs (proc_id p) \<in> set rest))
  \<and> fst (isR2Mounted mp sb (snd (isR2Mounted mp sb tr)))
      = (case startProcess sb (snd (isR2Mounted mp sb tr)) (mount_command mp) of
           Inl e \<Rightarrow> False
         | Inr p \<Rightarrow> (case getLogs p of
               Inl e \<Rightarrow> False
             | Inr lg \<Rightarrow> (\<exists>pre post. or_empty (stdout lg) = pre @ ''tigrisfs'' @ post)))
  \<and> (same_answer (startProcess sb tr (mount_command mp))
         (startProcess sb (snd (isR2Mounted mp sb tr)) (mount_command mp))
      \<longrightarrow> fst (isR2Mounted mp sb (snd (isR2Mounted mp sb tr))) = fst (isR2Mounted mp sb tr)
        \<and> length (filter is_remote (drop (length (snd (isR2Mounted mp sb tr)))
                     (snd (isR2Mounted mp sb (snd (isR2Mounted mp sb tr))))))
            = length (filter is_remote (drop (length tr) (snd (isR2Mounted mp sb tr))))
        \<and> filter is_sleep (drop (length (snd (isR2Mounted mp sb tr)))
                     (snd (isR2Mounted mp sb (snd (isR2Mounted mp sb tr)))))
            = filter is_sleep (drop (length tr) (snd (isR2Mounted mp sb tr))))
  \<and> (\<exists>rest. snd (syncToR2 w mp sb env (snd (syncToR2 w mp sb env tr)))
        = snd (syncToR2 w mp sb env tr) @ StartProcess (mount_command mp) # rest
      \<and> (\<forall>p. startProcess sb (snd (syncToR2 w mp sb env tr)) (mount_command mp) = Inr p
               \<and> snd (w p 5000) = None
             \<longrightarrow> GetLogs (proc_id p) \<in> set rest))
  \<and> success (fst (syncToR2 w mp sb env (snd (syncToR2 w mp sb env tr))))
      = (case startProcess sb (snd (syncToR2 w mp sb env tr)) (mount_command mp) of
           Inl e \<Rightarrow> False
         | Inr p \<Rightarrow> (case snd (w p 5000) of
               Some e \<Rightarrow> False
             | None \<Rightarrow> (case getLogs p of
                   Inl e \<Rightarrow> False
                 | Inr lg \<Rightarrow> (\<exists>pre post. or_empty (stdout lg) = pre @ ''tigrisfs'' @ post))))
  \<and> (same_answer (startProcess sb tr (mount_command mp))
         (startProcess sb (snd (syncToR2 w mp sb env tr)) (mount_command mp))
      \<and> (\<forall>p p'. startProcess sb tr (mount_command mp) = Inr p
             \<and> startProcess sb (snd (syncToR2 w mp sb env tr)) (mount_command mp) = Inr p'
             \<longrightarrow> w p' 5000 = w p 5000)
      \<longrightarrow> fst (syncToR2 w mp sb env (snd (syncToR2 w mp sb env tr))) = fst (syncToR2 w mp sb env tr)
        \<and> length (filter is_remote (drop (length (snd (syncToR2 w mp sb env tr)))
                     (snd (syncToR2 w mp sb env (snd (syncToR2 w mp sb env tr))))))
            = length (filter is_remote (drop (length tr) (snd (syncToR2 w mp sb env tr))))
        \<and> filter is_sleep (drop (length (snd (syncToR2 w mp sb env tr)))
                     (snd (syncToR2 w mp sb env (snd (syncToR2 w mp sb env tr)))))
            = filter is_sleep (drop (length tr) (snd (syncToR2 w mp sb env tr))))"
proof -
  define h where "h = snd (isR2Mounted mp sb tr)"
  define k where "k = snd (syncToR2 w mp sb env tr)"
  define c where "c = mount_command mp"
  have m: "fst (isR2Mounted mp sb x) = fst (mounted_run mp (startProcess sb x c))"
      "snd (isR2Mounted mp sb x) = x @ snd (mounted_run mp (startProcess sb x c))"
      "drop (length x) (snd (isR2Mounted mp sb x)) = snd (mounted_run mp (startProcess sb x c))"
    for x
    unfolding c_def by (subst isR2Mounted_run, simp)+
  have s: "fst (syncToR2 w mp sb env x) = fst (sync_run w mp env (startProcess sb x c))"
      "snd (syncToR2 w mp sb env x) = x @ snd (sync_run w mp env (startProcess sb x c))"
      "drop (length x) (snd (syncToR2 w mp sb env x)) = snd (sync_run w mp env (startProcess sb x c))"
    for x
    unfolding c_def by (subst syncToR2_run, simp)+
  have 1: "\<exists>rest. snd (isR2Mounted mp sb h) = h @ StartProcess c # rest
      \<and> (\<forall>p. startProcess sb h c = Inr p \<longrightarrow> GetLogs (proc_id p) \<in> set rest)"
    using mounted_run_asks[of mp "startProcess sb h c"] unfolding m(2)[of h] c_def by auto
  have 2: "fst (isR2Mounted mp sb h)
      = (case startProcess sb h c of
           Inl e \<Rightarrow> False
         | Inr p \<Rightarrow> (case getLogs p of
               Inl e \<Rightarrow> False
             | Inr lg \<Rightarrow> (\<exists>pre post. or_empty (stdout lg) = pre @ ''tigrisfs'' @ post)))"
    unfolding m(1)[of h] by (rule mounted_run_verdict)
  have 3: "same_answer (startProcess sb tr c) (startProcess sb h c)
      \<longrightarrow> fst (isR2Mounted mp sb h) = fst (isR2Mounted mp sb tr)
        \<and> length (filter is_remote (drop (length h) (snd (isR2Mounted mp sb h))))
            = length (filter is_remote (drop (length tr) (snd (isR2Mounted mp sb tr))))
        \<and> filter is_sleep (drop (length h) (snd (isR2Mounted mp sb h)))
            = filter is_sleep (drop (length tr) (snd (isR2Mounted mp sb tr)))"
    unfolding m(1,3) using mounted_run_same_answer by blast
  have 4: "\<exists>rest. snd (syncToR2 w mp sb env k) = k @ StartProcess c # rest
      \<and> (\<forall>p. startProcess sb k c = Inr p \<and> snd (w p 5000) = None
             \<longrightarrow> GetLogs (proc_id p) \<in> set rest)"
    using sync_run_asks[OF assms, of w mp "startProcess sb k c"] unfolding s(2)[of k] c_def by auto
  have 5: "success (fst (syncToR2 w mp sb env k))
      = (case startProcess sb k c of
           Inl e \<Rightarrow> False
         | Inr p \<Rightarrow> (case snd (w p 5000) of
               Some e \<Rightarrow> False
             | None \<Rightarrow> (case getLogs p of
                   Inl e \<Rightarrow> False
                 | Inr lg \<Rightarrow> (\<exists>pre post. or_empty (stdout lg) = pre @ ''tigrisfs'' @ post))))"
    unfolding s(1)[of k] by (rule sync_run_verdict[OF assms])
  have 6: "same_answer (startProcess sb tr c) (startProcess sb k c)
      \<and> (\<forall>p p'. startProcess sb tr c = Inr p \<and> startProcess sb k c = Inr p'
             \<longrightarrow> w p' 5000 = w p 5000)
      \<longrightarrow> fst (syncToR2 w mp sb env k) = fst (syncToR2 w mp sb env tr)
        \<and> length (filter is_remote (drop (length k) (snd (syncToR2 w mp sb env k))))
            = length (filter is_remote (drop (length tr) (snd (syncToR2 w mp sb env tr))))
        \<and> filter is_sleep (drop (length k) (snd (syncToR2 w mp sb env k)))
            = filter is_sleep (drop (length tr) (snd (syncToR2 w mp sb env tr)))"
    unfolding s(1,3) using sync_run_same_answer[OF assms] by blast
  show ?thesis
    using 1 2 3 4 5 6 unfolding h_def k_def c_def by (intro conjI)
qed

theorem second_check_asks_the_backend_again_witness:
  "fst (isR2Mounted ''/data/moltbot'' fresh_ids_sandbox [])
   \<and> fst (isR2Mounted ''/data/moltbot'' fresh_ids_sandbox
           (snd (isR2Mounted ''/data/moltbot'' fresh_ids_sandbox [])))
   \<and> length (filter is_remote (drop (length (snd (isR2Mounted ''/data/moltbot'' fresh_ids_sandbox [])))
        (snd (isR2Mounted ''/data/moltbot'' fresh_ids_sandbox
           (snd (isR2Mounted ''/data/moltbot'' fresh_ids_sandbox [])))))) = 2
   \<and> fst (isR2Mounted ''/data/moltbot'' unmounted_later_sandbox [])
   \<and> \<not> fst (isR2Mounted ''/data/moltbot'' unmounted_later_sandbox
           (snd (isR2Mounted ''/data/moltbot'' unmounted_later_sandbox [])))
   \<and> success (fst (syncToR2 no_wait ''/data/moltbot'' fresh_ids_sandbox createMockEnvWithR2
           (snd (syncToR2 no_wait ''/data/moltbot'' fresh_ids_sandbox createMockEnvWithR2 []))))
   \<and> \<not> success (fst (syncToR2 no_wait ''/data/moltbot'' unmounted_later_sandbox createMockEnvWithR2
           (snd (syncToR2 no_wait ''/data/moltbot'' unmounted_later_sandbox createMockEnvWithR2 []))))"
proof -
  note same = second_check_asks_the_backend_again[OF mock_env_configured,
      where mp = "''/data/moltbot''" and sb = fresh_ids_sandbox and tr = "[]" and w = no_wait]
  note changed = second_check_asks_the_backend_again[OF mock_env_configured,
      where mp = "''/data/moltbot''" and sb = unmounted_later_sandbox and tr = "[]" and w = no_wait]
  have h1: "snd (isR2Mounted ''/data/moltbot'' fresh_ids_sandbox [])
      = [StartProcess (mount_command ''/data/moltbot''), GetLogs ''proc-1'',
         ConsoleLog [Str ''isR2Mounted check:'', Bool True, Str ''stdout:'',
           Str ''tigrisfs on /data/moltbot type fuse.tigrisfs\<newline>'']]"
    by (simp add: isR2Mounted_def fresh_ids_sandbox_def mockResolvedValueOnce_def mockProcessWith_def
        mounted_logs_def isR2Mounted_wait.simps Let_def)
  have first: "fst (isR2Mounted ''/data/moltbot'' fresh_ids_sandbox [])"
    by (simp add: isR2Mounted_def fresh_ids_sandbox_def mockResolvedValueOnce_def mockProcessWith_def
        mounted_logs_def isR2Mounted_wait.simps Let_def)
  have sa: "same_answer (startProcess fresh_ids_sandbox [] (mount_command ''/data/moltbot''))
         (startProcess fresh_ids_sandbox (snd (isR2Mounted ''/data/moltbot'' fresh_ids_sandbox []))
            (mount_command ''/data/moltbot''))"
    unfolding h1
    by (simp add: same_answer_def fresh_ids_sandbox_def mockResolvedValueOnce_def mockProcessWith_def)
  have second: "fst (isR2Mounted ''/data/moltbot'' fresh_ids_sandbox
           (snd (isR2Mounted ''/data/moltbot'' fresh_ids_sandbox [])))
        = fst (isR2Mounted ''/data/moltbot'' fresh_ids_sandbox [])"
    and calls: "length (filter is_remote (drop (length (snd (isR2Mounted ''/data/moltbot'' fresh_ids_sandbox [])))
        (snd (isR2Mounted ''/data/moltbot'' fresh_ids_sandbox
           (snd (isR2Mounted ''/data/moltbot'' fresh_ids_sandbox []))))))
        = length (filter is_remote (drop (length ([]::event list))
            (snd (isR2Mounted ''/data/moltbot'' fresh_ids_sandbox []))))"
    using same[THEN conjunct2, THEN conjunct2, THEN conjunct1] sa by blast+
  have calls2: "length (filter is_remote (drop (length ([]::event list))
            (snd (isR2Mounted ''/data/moltbot'' fresh_ids_sandbox [])))) = 2"
    unfolding h1 by simp
  have h2: "snd (isR2Mounted ''/data/moltbot'' unmounted_later_sandbox [])
      = [StartProcess (mount_command ''/data/moltbot''), GetLogs ''proc-1'',
         ConsoleLog [Str ''isR2Mounted check:'', Bool True, Str ''stdout:'',
           Str ''tigrisfs on /data/moltbot type fuse.tigrisfs\<newline>'']]"
    and first2: "fst (isR2Mounted ''/data/moltbot'' unmounted_later_sandbox [])"
    by (simp_all add: isR2Mounted_def unmounted_later_sandbox_def mockResolvedValueOnce_def
        mockProcessWith_def mounted_logs_def isR2Mounted_wait.simps Let_def)
  have later: "\<not> fst (isR2Mounted ''/data/moltbot'' unmounted_later_sandbox
           (snd (isR2Mounted ''/data/moltbot'' unmounted_later_sandbox [])))"
    using changed[THEN conjunct2, THEN conjunct1, unfolded str_includes_iff[symmetric]] unfolding h2
    by (simp add: unmounted_later_sandbox_def mockResolvedValueOnce_def mockProcessWith_def)
  have k1: "snd (syncToR2 no_wait ''/data/moltbot'' fresh_ids_sandbox createMockEnvWithR2 [])
      = [StartProcess (mount_command ''/data/moltbot''), GetLogs ''proc-1'']"
    and k2: "snd (syncToR2 no_wait ''/data/moltbot'' unmounted_later_sandbox createMockEnvWithR2 [])
      = [StartProcess (mount_command ''/data/moltbot''), GetLogs ''proc-1'']"
    using mock_env_configured
    by (simp_all add: syncToR2_def fresh_ids_sandbox_def unmounted_later_sandbox_def
        mockResolvedValueOnce_def mockProcessWith_def mounted_logs_def no_wait_def Let_def)
  have s1: "success (fst (syncToR2 no_wait ''/data/moltbot'' fresh_ids_sandbox createMockEnvWithR2
           (snd (syncToR2 no_wait ''/data/moltbot'' fresh_ids_sandbox createMockEnvWithR2 []))))"
    using same[THEN conjunct2, THEN conjunct2, THEN conjunct2, THEN conjunct2, THEN conjunct1,
        unfolded str_includes_iff[symmetric]]
    unfolding k1
    by (simp add: fresh_ids_sandbox_def mockResolvedValueOnce_def mockProcessWith_def
        mounted_logs_def no_wait_def)
  have s2: "\<not> success (fst (syncToR2 no_wait ''/data/moltbot'' unmounted_later_sandbox createMockEnvWithR2
           (snd (syncToR2 no_wait ''/data/moltbot'' unmounted_later_sandbox createMockEnvWithR2 []))))"
    using changed[THEN conjunct2, THEN conjunct2, THEN conjunct2, THEN conjunct2, THEN conjunct1,
        unfolded str_includes_iff[symmetric]]
    unfolding k2
    by (simp add: unmounted_later_sandbox_def mockResolvedValueOnce_def mockProcessWith_def
        no_wait_def)
  show ?thesis
    using first second calls calls2 first2 later s1 s2 by simp
qed




end
